theory Spec2Isabelle
  imports Complex_Main
begin

section \<open>Blood-type compatibility (controllers/matchController.js)\<close>

text \<open>
  Blood types, statuses and roles are JavaScript strings in the source and are kept as
  strings here. An absent string field (\<open>undefined\<close>) is represented by the empty string:
  the code treats both the same way (both are falsy, neither is a key of a table nor a
  member of a validator's list). Object ids are natural numbers.

  \<open>getCompatibleBloodTypes(requestedType)\<close> looks the requested type up in a literal
  table and returns \<open>[]\<close> for a key the table does not have
  (\<open>compatibility[requestedType] || []\<close>). The table lists, for a requested type, the
  donor types that may give to it. Only the table's own keys are modelled: a request
  whose blood type is a name that a JavaScript object inherits from its prototype
  (\<open>constructor\<close>, \<open>toString\<close>, ...), for which the source's lookup returns the
  inherited property and \<open>calculateMatchScore\<close> then throws, is outside the model.
  Such names are not blood types: the enumeration of models/Donor.js has eight values.
\<close>

definition compatibility :: "(string \<times> string list) list" where
  "compatibility =
    [(''A+'',  [''A+'', ''A-'', ''O+'', ''O-'']),
     (''A-'',  [''A-'', ''O-'']),
     (''B+'',  [''B+'', ''B-'', ''O+'', ''O-'']),
     (''B-'',  [''B-'', ''O-'']),
     (''AB+'', [''A+'', ''A-'', ''B+'', ''B-'', ''AB+'', ''AB-'', ''O+'', ''O-'']),
     (''AB-'', [''A-'', ''B-'', ''AB-'', ''O-'']),
     (''O+'',  [''O+'', ''O-'']),
     (''O-'',  [''O-''])]"

definition getCompatibleBloodTypes :: "string \<Rightarrow> string list" where
  "getCompatibleBloodTypes requestedType =
    (case map_of compatibility requestedType of
       Some types \<Rightarrow> types
     | None \<Rightarrow> [])"

text \<open>
  The eight values of the \<open>bloodType\<close> enumeration of models/Donor.js.
\<close>

definition bloodTypes :: "string list" where
  "bloodTypes = [''A+'', ''A-'', ''B+'', ''B-'', ''AB+'', ''AB-'', ''O+'', ''O-'']"

text \<open>
  The compatibility table as the specification's glossary words it: from a donor's type
  to the requester types that donor may give to. This definition follows the
  specification, not the source; it is what the source's table is compared with.
\<close>

definition glossary_table :: "string \<Rightarrow> string list" where
  "glossary_table donorType =
    (if donorType = ''O-'' then [''O-'', ''O+'', ''A-'', ''A+'', ''B-'', ''B+'', ''AB-'', ''AB+'']
     else if donorType = ''O+'' then [''O+'', ''A+'', ''B+'', ''AB+'']
     else if donorType = ''A-'' then [''A-'', ''A+'', ''AB-'', ''AB+'']
     else if donorType = ''A+'' then [''A+'', ''AB+'']
     else if donorType = ''B-'' then [''B-'', ''B+'', ''AB-'', ''AB+'']
     else if donorType = ''B+'' then [''B+'', ''AB+'']
     else if donorType = ''AB-'' then [''AB-'', ''AB+'']
     else if donorType = ''AB+'' then [''AB+'']
     else [])"

section \<open>Data model\<close>

text \<open>
  Modelled from the spec: the Mongoose models Request, Hospital, Match and User are not
  among the sources; only models/Donor.js is. The records below hold the fields of the
  specification's data model that the controllers read and write, under the
  controllers' names (with a prefix where two records share a name). Coordinates are the
  pair \<open>[longitude, latitude]\<close>.
\<close>

type_synonym oid = nat

type_synonym coordinates = "real \<times> real"

record hospital =
  h_id :: oid
  h_user :: oid
  h_location :: "coordinates option"

text \<open>
  A request's \<open>hospital\<close> field is an object id as the store returns it
  (\<open>Request.findById\<close> without \<open>populate\<close>), or the hospital document itself
  when the field has been populated. The handlers never populate it, so the requests of
  the store hold an id; \<open>hospital_id\<close> is the id that the handlers compare with
  \<open>hospital._id\<close>.
\<close>

datatype hospitalRef = HospitalId oid | HospitalDoc hospital

fun hospital_id :: "hospitalRef \<Rightarrow> oid" where
  "hospital_id (HospitalId i) = i"
| "hospital_id (HospitalDoc h) = h_id h"

text \<open>
  \<open>request.hospital.location\<close>: an object id has no \<open>location\<close> property.
\<close>

fun hospital_location :: "hospitalRef \<Rightarrow> coordinates option" where
  "hospital_location (HospitalId i) = None"
| "hospital_location (HospitalDoc h) = h_location h"

record statusEntry =
  se_status :: string
  se_updatedBy :: oid
  se_notes :: string

record request =
  rq_id :: oid
  rq_hospital :: hospitalRef
  requestType :: string
  rq_bloodType :: string
  organType :: string
  rq_urgencyLevel :: string
  rq_status :: string
  rq_statusHistory :: "statusEntry list"
  rq_matches :: "oid list"

text \<open>
  Modelled from the spec: the User model and the shape of its \<open>donorProfile\<close> are not
  among the sources. The profile holds the fields that \<open>findPotentialMatches\<close> queries
  and \<open>calculateMatchScore\<close> reads, and the \<open>isAvailable\<close> flag of the specification's
  donor profile (models/Donor.js declares it, default true). The query criteria on
  \<open>donorProfile.*\<close> paths are evaluated on this profile. Dates are milliseconds since
  the epoch; a date that was never recorded is \<open>None\<close>.
\<close>

record donorProfile =
  dp_bloodType :: string
  isAvailable :: bool
  availableForBloodDonation :: bool
  lastBloodDonationDate :: "int option"
  organDonor :: bool
  organsForDonation :: "string list"
  dp_location :: "coordinates option"
  availability :: string

section \<open>Scoring (controllers/matchController.js)\<close>

text \<open>
  JavaScript numbers are IEEE doubles; distances are modelled over the reals, so the
  rounding of the trigonometric functions is not part of the model: within rounding
  distance of a tier boundary the two can fall on different sides, and where rounding
  makes \<open>a\<close> exceed 1 (near antipodal points) the source's \<open>Math.sqrt(1 - a)\<close> is NaN.
  No theorem below compares a distance with a boundary it is close to. The additions of
  the score are exact in both (small integers). \<open>Math.atan2(y, x)\<close> is the angle of the
  point \<open>(x, y)\<close>.
\<close>

definition Math_atan2 :: "real \<Rightarrow> real \<Rightarrow> real" where
  "Math_atan2 y x =
    (if 0 < x then arctan (y / x)
     else if x < 0 \<and> 0 \<le> y then arctan (y / x) + pi
     else if x < 0 then arctan (y / x) - pi
     else if 0 < y then pi / 2
     else if y < 0 then - (pi / 2)
     else 0)"

definition calculateDistance :: "coordinates \<Rightarrow> coordinates \<Rightarrow> real" where
  "calculateDistance coord1 coord2 =
    (let (lon1, lat1) = coord1;
         (lon2, lat2) = coord2;
         R = 6371;
         dLat = (lat2 - lat1) * pi / 180;
         dLon = (lon2 - lon1) * pi / 180;
         a = sin (dLat / 2) * sin (dLat / 2) +
             cos (lat1 * pi / 180) * cos (lat2 * pi / 180) *
             sin (dLon / 2) * sin (dLon / 2);
         c = 2 * Math_atan2 (sqrt a) (sqrt (1 - a))
     in R * c)"

text \<open>A JavaScript string is truthy when it is not empty.\<close>

definition truthy :: "string \<Rightarrow> bool" where
  "truthy s = (s \<noteq> [])"

text \<open>
  The three blocks of \<open>calculateMatchScore\<close>, each as the amount it adds to
  \<open>score\<close>.
\<close>

definition compatibilityPoints :: "request \<Rightarrow> donorProfile \<Rightarrow> int" where
  "compatibilityPoints request dp =
    (if truthy (rq_bloodType request) \<and> truthy (dp_bloodType dp) then
       (let compatibleTypes = getCompatibleBloodTypes (rq_bloodType request)
        in if dp_bloodType dp \<in> set compatibleTypes then 40 else 0)
     else 0)"

definition distancePoints :: "request \<Rightarrow> donorProfile \<Rightarrow> int" where
  "distancePoints request dp =
    (case hospital_location (rq_hospital request) of
       None \<Rightarrow> 0
     | Some hospitalCoordinates \<Rightarrow>
        (case dp_location dp of
           None \<Rightarrow> 0
         | Some donorCoordinates \<Rightarrow>
            (let distance = calculateDistance hospitalCoordinates donorCoordinates
             in if distance < 10 then 30
                else if distance < 25 then 20
                else if distance < 50 then 10
                else 0)))"

definition availabilityPoints :: "donorProfile \<Rightarrow> int" where
  "availabilityPoints dp =
    (if availability dp = ''immediate'' then 30
     else if availability dp = ''flexible'' then 20
     else 10)"

definition calculateMatchScore :: "request \<Rightarrow> donorProfile \<Rightarrow> int" where
  "calculateMatchScore request dp =
    (let score = 0;
         score = score + compatibilityPoints request dp;
         score = score + distancePoints request dp;
         score = score + availabilityPoints dp
     in min 100 score)"

section \<open>The store and the HTTP layer\<close>

text \<open>
  Modelled from the spec: the Match model is not among the sources. A match holds the
  fields that \<open>confirmMatch\<close>, \<open>updateMatchStatus\<close> and \<open>reportOutcome\<close> write.
\<close>

record outcome =
  successful :: bool
  completedAt :: int
  reportedBy :: oid
  o_notes :: string

record match =
  m_id :: oid
  m_request :: oid
  m_donor :: oid
  m_status :: string
  proposedBy :: oid
  matchType :: string
  m_urgencyLevel :: string
  m_statusHistory :: "statusEntry list"
  m_outcome :: "outcome option"

text \<open>
  A document of the Donor collection (models/Donor.js); the controllers modelled here
  read its id and its user only.
\<close>

record donor =
  d_id :: oid
  d_user :: oid

record user =
  u_id :: oid
  u_name :: string
  u_role :: string
  u_status :: string
  u_donorProfile :: "donorProfile option"

text \<open>
  The store: one list of documents per collection, in the order in which a query
  without \<open>sort\<close> yields them. Ids are keys: \<open>save\<close> replaces the document with the
  same id.
\<close>

record db =
  users :: "user list"
  hospitals :: "hospital list"
  donors :: "donor list"
  requests :: "request list"
  matches :: "match list"

text \<open>\<open>req.user\<close>, as the authentication middleware leaves it.\<close>

record authUser =
  au_id :: oid
  au_role :: string

text \<open>
  What a handler sends: \<open>res.status(code).json(body)\<close>, \<open>res.status(code).json({msg})\<close>
  or \<open>res.status(400).json({errors})\<close>.
\<close>

datatype 'a response = Json nat 'a | Msg nat string | Errors nat "string list"

definition Request_findById :: "db \<Rightarrow> oid \<Rightarrow> request option" where
  "Request_findById d i = find (\<lambda>r. rq_id r = i) (requests d)"

definition Request_save :: "db \<Rightarrow> request \<Rightarrow> db" where
  "Request_save d r = d\<lparr>requests := map (\<lambda>x. if rq_id x = rq_id r then r else x) (requests d)\<rparr>"

definition Request_findByIdAndUpdate :: "db \<Rightarrow> oid \<Rightarrow> string \<Rightarrow> db" where
  "Request_findByIdAndUpdate d i newStatus =
    d\<lparr>requests := map (\<lambda>x. if rq_id x = i then x\<lparr>rq_status := newStatus\<rparr> else x) (requests d)\<rparr>"

definition Hospital_findOne :: "db \<Rightarrow> oid \<Rightarrow> hospital option" where
  "Hospital_findOne d userId = find (\<lambda>h. h_user h = userId) (hospitals d)"

definition Donor_findById :: "db \<Rightarrow> oid \<Rightarrow> donor option" where
  "Donor_findById d i = find (\<lambda>x. d_id x = i) (donors d)"

definition Donor_findOne :: "db \<Rightarrow> oid \<Rightarrow> donor option" where
  "Donor_findOne d userId = find (\<lambda>x. d_user x = userId) (donors d)"

definition Match_findById :: "db \<Rightarrow> oid \<Rightarrow> match option" where
  "Match_findById d i = find (\<lambda>m. m_id m = i) (matches d)"

definition Match_findOne :: "db \<Rightarrow> oid \<Rightarrow> oid \<Rightarrow> match option" where
  "Match_findOne d requestId donorId =
    find (\<lambda>m. m_request m = requestId \<and> m_donor m = donorId) (matches d)"

definition Match_save :: "db \<Rightarrow> match \<Rightarrow> db" where
  "Match_save d m = d\<lparr>matches := map (\<lambda>x. if m_id x = m_id m then m else x) (matches d)\<rparr>"

definition Match_insert :: "db \<Rightarrow> match \<Rightarrow> db" where
  "Match_insert d m = d\<lparr>matches := matches d @ [m]\<rparr>"

text \<open>\<open>req.body.notes || ''\<close>\<close>

definition notesOrEmpty :: "string option \<Rightarrow> string" where
  "notesOrEmpty notes = (case notes of None \<Rightarrow> [] | Some n \<Rightarrow> n)"

text \<open>
  A field of an HTTP request as a route's validator and handler see it. The validator
  \<open>check(field, message)\<close> of express-validator looks the field up in \<open>req.body\<close>,
  \<open>req.cookies\<close>, \<open>req.headers\<close>, \<open>req.params\<close> and \<open>req.query\<close>, in this order;
  the handlers read \<open>req.body\<close> only. \<open>inBody\<close> is the value in the body, if the body
  has the field; \<open>elsewhere\<close> are the values found in the other four locations. Values
  are strings.
\<close>

record requestField =
  inBody :: "string option"
  elsewhere :: "string list"

text \<open>
  The instances of the field that the validator checks: every location that has the
  field.
\<close>

definition fieldInstances :: "requestField \<Rightarrow> string list" where
  "fieldInstances f = (case inBody f of None \<Rightarrow> [] | Some v \<Rightarrow> [v]) @ elsewhere f"

text \<open>
  The validator \<open>check(field, message).isIn(values)\<close> of a route: the errors that
  \<open>validationResult\<close> then holds. Every instance of the field must pass; when no
  location has the field, the one undefined instance fails.
\<close>

definition check_isIn :: "requestField \<Rightarrow> string \<Rightarrow> string list \<Rightarrow> string list" where
  "check_isIn f message vs =
    (if fieldInstances f = [] then [message]
     else map (\<lambda>v. message) (filter (\<lambda>v. v \<notin> set vs) (fieldInstances f)))"

text \<open>
  \<open>req.body.status\<close>, what the handlers read and store: the body's value, or
  \<open>undefined\<close> (the absent string) when the body has none.
\<close>

definition bodyValue :: "requestField \<Rightarrow> string" where
  "bodyValue f = (case inBody f of None \<Rightarrow> [] | Some v \<Rightarrow> v)"

text \<open>
  The check that the handlers of a request repeat for a hospital user: the user's
  hospital exists and is the request's hospital.
\<close>

definition hospitalOwnsRequest :: "db \<Rightarrow> authUser \<Rightarrow> request \<Rightarrow> bool" where
  "hospitalOwnsRequest d u request =
    (case Hospital_findOne d (au_id u) of
       None \<Rightarrow> False
     | Some hospital \<Rightarrow> h_id hospital = hospital_id (rq_hospital request))"

text \<open>
  The same check in the handlers of a match, where the request is loaded through
  \<open>match.request\<close>: \<open>hospital && request && hospital._id = request.hospital\<close>.
\<close>

definition hospitalOwnsMatch :: "db \<Rightarrow> authUser \<Rightarrow> match \<Rightarrow> bool" where
  "hospitalOwnsMatch d u m =
    (case Hospital_findOne d (au_id u) of
       None \<Rightarrow> False
     | Some hospital \<Rightarrow>
        (case Request_findById d (m_request m) of
           None \<Rightarrow> False
         | Some request \<Rightarrow> h_id hospital = hospital_id (rq_hospital request)))"

section \<open>Request status (controllers/requestController.js, routes/requestRoutes.js)\<close>

definition updateRequestStatus ::
  "string list \<Rightarrow> oid \<Rightarrow> authUser \<Rightarrow> string \<Rightarrow> string option \<Rightarrow> db \<Rightarrow> request response \<times> db" where
  "updateRequestStatus errors i u newStatus notes d =
    (if errors \<noteq> [] then (Errors 400 errors, d)
     else case Request_findById d i of
       None \<Rightarrow> (Msg 404 ''Request not found'', d)
     | Some request \<Rightarrow>
        if au_role u = ''hospital'' \<and> \<not> hospitalOwnsRequest d u request
        then (Msg 403 ''Not authorized to update this request'', d)
        else
          (let request' = request
                 \<lparr>rq_status := newStatus,
                  rq_statusHistory := rq_statusHistory request @
                    [\<lparr>se_status = newStatus, se_updatedBy = au_id u,
                      se_notes = notesOrEmpty notes\<rparr>]\<rparr>
           in (Json 200 request', Request_save d request')))"

definition requestStatusValues :: "string list" where
  "requestStatusValues =
    [''pending'', ''searching'', ''matched'', ''in_progress'', ''completed'', ''cancelled'']"

text \<open>
  The route \<open>PATCH /api/requests/:id/status\<close>, after the \<open>authenticate\<close> and
  \<open>checkRole\<close> middleware (which are not among the sources) have let the request
  through: the validator runs on every instance of \<open>status\<close>, the handler reads
  \<open>req.body.status\<close>.
\<close>

definition patch_request_status ::
  "oid \<Rightarrow> authUser \<Rightarrow> requestField \<Rightarrow> string option \<Rightarrow> db \<Rightarrow> request response \<times> db" where
  "patch_request_status i u statusField notes d =
    updateRequestStatus (check_isIn statusField ''Status is required'' requestStatusValues)
      i u (bodyValue statusField) notes d"

text \<open>
  The transition graph of a request as the specification draws it: the happy path,
  \<open>cancelled\<close> from every state that is not terminal, and \<open>matched\<close> back to
  \<open>searching\<close>. This follows the specification; the source has no such table.
\<close>

definition request_graph :: "(string \<times> string) list" where
  "request_graph =
    [(''pending'', ''searching''), (''searching'', ''matched''),
     (''matched'', ''in_progress''), (''in_progress'', ''completed''),
     (''pending'', ''cancelled''), (''searching'', ''cancelled''),
     (''matched'', ''cancelled''), (''in_progress'', ''cancelled''),
     (''matched'', ''searching'')]"

definition request_terminal :: "string \<Rightarrow> bool" where
  "request_terminal s = (s \<in> set [''completed'', ''cancelled''])"

section \<open>Match status and outcome (controllers/matchController.js, routes/matchRoutes.js)\<close>

text \<open>
  The permission block of \<open>updateMatchStatus\<close>: \<open>Inl\<close> is the early 403 of the donor
  branch, \<open>Inr\<close> the value of \<open>hasPermission\<close>.
\<close>

definition matchStatusPermission :: "db \<Rightarrow> authUser \<Rightarrow> match \<Rightarrow> string \<Rightarrow> string + bool" where
  "matchStatusPermission d u m newStatus =
    (if au_role u \<in> set [''admin'', ''coordinator''] then Inr True
     else if au_role u = ''hospital'' then Inr (hospitalOwnsMatch d u m)
     else if au_role u = ''donor'' then
       (case Donor_findOne d (au_id u) of
          None \<Rightarrow> Inr False
        | Some donor \<Rightarrow>
           if d_id donor = m_donor m then
             (if newStatus \<notin> set [''pending_confirmation'', ''confirmed'', ''rejected'']
              then Inl ''Donors can only confirm or reject matches''
              else Inr True)
           else Inr False)
     else Inr False)"

definition updateMatchStatus ::
  "string list \<Rightarrow> oid \<Rightarrow> authUser \<Rightarrow> string \<Rightarrow> string option \<Rightarrow> db \<Rightarrow> match response \<times> db" where
  "updateMatchStatus errors i u newStatus notes d =
    (if errors \<noteq> [] then (Errors 400 errors, d)
     else case Match_findById d i of
       None \<Rightarrow> (Msg 404 ''Match not found'', d)
     | Some m \<Rightarrow>
        (case matchStatusPermission d u m newStatus of
           Inl msg \<Rightarrow> (Msg 403 msg, d)
         | Inr hasPermission \<Rightarrow>
            if \<not> hasPermission then (Msg 403 ''Not authorized to update this match'', d)
            else
              (let m' = m
                     \<lparr>m_status := newStatus,
                      m_statusHistory := m_statusHistory m @
                        [\<lparr>se_status = newStatus, se_updatedBy = au_id u,
                          se_notes = notesOrEmpty notes\<rparr>]\<rparr>;
                   d1 = Match_save d m';
                   d2 = (if newStatus = ''rejected''
                         then Request_findByIdAndUpdate d1 (m_request m') ''searching''
                         else d1)
               in (Json 200 m', d2))))"

definition matchStatusValues :: "string list" where
  "matchStatusValues =
    [''proposed'', ''pending_confirmation'', ''confirmed'', ''rejected'', ''in_transit'',
     ''delivered'', ''transplanted'', ''failed'']"

text \<open>The route \<open>PATCH /api/matches/:id/status\<close>, after its middleware.\<close>

definition patch_match_status ::
  "oid \<Rightarrow> authUser \<Rightarrow> requestField \<Rightarrow> string option \<Rightarrow> db \<Rightarrow> match response \<times> db" where
  "patch_match_status i u statusField notes d =
    updateMatchStatus (check_isIn statusField ''Status is required'' matchStatusValues)
      i u (bodyValue statusField) notes d"

text \<open>
  The transition graph of a match as the specification draws it: the happy path,
  \<open>rejected\<close> from \<open>proposed\<close> and \<open>pending_confirmation\<close>, \<open>failed\<close> from every state
  that is not terminal. A status is reachable from another when a path of one or more
  edges leads to it.
\<close>

definition match_graph :: "(string \<times> string) list" where
  "match_graph =
    [(''proposed'', ''pending_confirmation''), (''pending_confirmation'', ''confirmed''),
     (''confirmed'', ''in_transit''), (''in_transit'', ''delivered''),
     (''delivered'', ''transplanted''),
     (''proposed'', ''rejected''), (''pending_confirmation'', ''rejected''),
     (''proposed'', ''failed''), (''pending_confirmation'', ''failed''),
     (''confirmed'', ''failed''), (''in_transit'', ''failed''), (''delivered'', ''failed'')]"

definition match_reachable :: "string \<Rightarrow> string \<Rightarrow> bool" where
  "match_reachable s t = ((s, t) \<in> (set match_graph)\<^sup>+)"

definition match_terminal :: "string \<Rightarrow> bool" where
  "match_terminal s = (s \<in> set [''transplanted'', ''rejected'', ''failed''])"

text \<open>
  \<open>reportOutcome\<close>, for a body whose \<open>successful\<close> is a JSON boolean. (The route's
  \<open>isBoolean\<close> also lets the strings \<open>true\<close>, \<open>false\<close>, \<open>1\<close> and \<open>0\<close> through, all of
  which the handler's test takes as truthy; they are outside this model.)
\<close>

definition reportOutcome ::
  "string list \<Rightarrow> oid \<Rightarrow> authUser \<Rightarrow> bool \<Rightarrow> string option \<Rightarrow> int \<Rightarrow> db \<Rightarrow> match response \<times> db" where
  "reportOutcome errors i u success notes now d =
    (if errors \<noteq> [] then (Errors 400 errors, d)
     else case Match_findById d i of
       None \<Rightarrow> (Msg 404 ''Match not found'', d)
     | Some m \<Rightarrow>
        (let hasPermission =
               (if au_role u \<in> set [''admin'', ''coordinator''] then True
                else if au_role u = ''hospital'' then hospitalOwnsMatch d u m
                else False)
         in if \<not> hasPermission
            then (Msg 403 ''Not authorized to report outcome for this match'', d)
            else
              (let m1 = m\<lparr>m_outcome := Some
                        \<lparr>successful = success, completedAt = now, reportedBy = au_id u,
                         o_notes = notesOrEmpty notes\<rparr>\<rparr>;
                   m2 = m1\<lparr>m_status := (if success then ''completed'' else ''failed'')\<rparr>;
                   m3 = m2\<lparr>m_statusHistory := m_statusHistory m2 @
                        [\<lparr>se_status = m_status m2, se_updatedBy = au_id u,
                          se_notes = notesOrEmpty notes\<rparr>]\<rparr>;
                   d1 = Match_save d m3;
                   d2 = (case Request_findById d1 (m_request m3) of
                           None \<Rightarrow> d1
                         | Some request \<Rightarrow>
                            Request_save d1
                              (request\<lparr>rq_status :=
                                 (if success then ''fulfilled'' else ''searching'')\<rparr>))
               in (Json 200 m3, d2))))"

section \<open>Confirming a match (controllers/matchController.js)\<close>

text \<open>
  \<open>newId\<close> is the id that \<open>new Match\<close> gives the document. The notification mail is
  not modelled: the handler catches and logs its failure and answers the same.
\<close>

definition confirmMatch :: "oid \<Rightarrow> oid \<Rightarrow> authUser \<Rightarrow> oid \<Rightarrow> db \<Rightarrow> match response \<times> db" where
  "confirmMatch requestId donorId u newId d =
    (case Request_findById d requestId of
       None \<Rightarrow> (Msg 404 ''Request not found'', d)
     | Some request \<Rightarrow>
        (case Donor_findById d donorId of
           None \<Rightarrow> (Msg 404 ''Donor not found'', d)
         | Some donor \<Rightarrow>
            if au_role u = ''hospital'' \<and> \<not> hospitalOwnsRequest d u request
            then (Msg 403 ''Not authorized to confirm matches for this request'', d)
            else
              (case Match_findOne d (rq_id request) (d_id donor) of
                 Some existingMatch \<Rightarrow>
                   (Msg 400 ''Match already exists for this donor and request'', d)
               | None \<Rightarrow>
                   (let m = \<lparr>m_id = newId, m_request = rq_id request, m_donor = d_id donor,
                             m_status = ''proposed'', proposedBy = au_id u,
                             matchType = requestType request,
                             m_urgencyLevel = rq_urgencyLevel request,
                             m_statusHistory = [], m_outcome = None\<rparr>;
                        d1 = Match_insert d m;
                        request' = request
                          \<lparr>rq_status := ''matched'',
                           rq_matches := rq_matches request @ [m_id m]\<rparr>;
                        d2 = Request_save d1 request'
                    in (Json 201 m, d2)))))"

section \<open>Finding candidates (controllers/matchController.js)\<close>

text \<open>
  The criteria that \<open>findPotentialMatches\<close> builds from the request, evaluated on one
  user document. A criterion on a path under \<open>donorProfile\<close> does not hold for a user
  without a profile; \<open>$lt\<close> does not hold for a date that is absent. \<open>now\<close> is
  \<open>Date.now()\<close>.
\<close>

definition matchCriteria :: "request \<Rightarrow> int \<Rightarrow> user \<Rightarrow> bool" where
  "matchCriteria request now u =
    (if requestType request = ''blood'' then
       (let compatibleTypes = getCompatibleBloodTypes (rq_bloodType request)
        in case u_donorProfile u of
             None \<Rightarrow> False
           | Some p \<Rightarrow>
               dp_bloodType p \<in> set compatibleTypes
               \<and> availableForBloodDonation p
               \<and> (case lastBloodDonationDate p of
                     None \<Rightarrow> False
                   | Some date \<Rightarrow> date < now - 56 * 24 * 60 * 60 * 1000))
     else if requestType request = ''organ'' then
       (case u_donorProfile u of
          None \<Rightarrow> False
        | Some p \<Rightarrow>
            organDonor p
            \<and> organType request \<in> set (organsForDonation p)
            \<and> dp_bloodType p \<in> set (getCompatibleBloodTypes (rq_bloodType request)))
     else True)"

text \<open>
  \<open>User.find({role: 'donor', status: 'active', ...matchCriteria})\<close>: the matching
  users, in the store's order (the query has no \<open>sort\<close>).
\<close>

definition findDonors :: "db \<Rightarrow> request \<Rightarrow> int \<Rightarrow> user list" where
  "findDonors d request now =
    filter (\<lambda>u. u_role u = ''donor'' \<and> u_status u = ''active'' \<and> matchCriteria request now u)
      (users d)"

record candidate =
  donorId :: oid
  c_name :: string
  c_bloodType :: string
  c_location :: "coordinates option"
  matchScore :: int

text \<open>
  One element of the answer, built from a found user and its profile. Reading
  \<open>donor.donorProfile.bloodType\<close> of a user without a profile throws: \<open>None\<close>.
\<close>

definition toCandidate :: "request \<Rightarrow> user \<Rightarrow> candidate option" where
  "toCandidate request x =
    (case u_donorProfile x of
       None \<Rightarrow> None
     | Some p \<Rightarrow> Some
        \<lparr>donorId = u_id x, c_name = u_name x, c_bloodType = dp_bloodType p,
         c_location = dp_location p, matchScore = calculateMatchScore request p\<rparr>)"

text \<open>
  The handler. An exception in \<open>donors.map\<close> reaches the handler's \<open>catch\<close>, which
  answers 500. The request is passed to \<open>calculateMatchScore\<close> as
  \<open>Request.findById\<close> returned it.
\<close>

definition findPotentialMatches ::
  "string list \<Rightarrow> oid \<Rightarrow> authUser \<Rightarrow> int \<Rightarrow> db \<Rightarrow> candidate list response" where
  "findPotentialMatches errors requestId u now d =
    (if errors \<noteq> [] then Errors 400 errors
     else case Request_findById d requestId of
       None \<Rightarrow> Msg 404 ''Request not found''
     | Some request \<Rightarrow>
        if au_role u = ''hospital'' \<and> \<not> hospitalOwnsRequest d u request
        then Msg 403 ''Not authorized to search matches for this request''
        else
          (let found = findDonors d request now
           in case those (map (toCandidate request) found) of
                None \<Rightarrow> Msg 500 ''Server error''
              | Some answer \<Rightarrow> Json 200 answer))"

section \<open>Example data\<close>

text \<open>A hospital at the origin.\<close>

definition example_hospital :: hospital where
  "example_hospital = \<lparr>h_id = 7, h_user = 70, h_location = Some (0, 0)\<rparr>"

text \<open>
  A store with one hospital, one donor, one request and one match between them, in given
  statuses, and an administrator.
\<close>

definition example_stored_request :: "string \<Rightarrow> request" where
  "example_stored_request st =
    \<lparr>rq_id = 11, rq_hospital = HospitalId 7, requestType = ''blood'',
     rq_bloodType = ''A+'', organType = [], rq_urgencyLevel = ''urgent'',
     rq_status = st, rq_statusHistory = [], rq_matches = [3]\<rparr>"

definition example_match :: "string \<Rightarrow> match" where
  "example_match st =
    \<lparr>m_id = 3, m_request = 11, m_donor = 5, m_status = st, proposedBy = 90,
     matchType = ''blood'', m_urgencyLevel = ''urgent'', m_statusHistory = [],
     m_outcome = None\<rparr>"

definition example_db :: "string \<Rightarrow> string \<Rightarrow> db" where
  "example_db requestStatus matchStatus =
    \<lparr>users = [], hospitals = [example_hospital], donors = [\<lparr>d_id = 5, d_user = 50\<rparr>],
     requests = [example_stored_request requestStatus],
     matches = [example_match matchStatus]\<rparr>"

definition example_admin :: authUser where
  "example_admin = \<lparr>au_id = 90, au_role = ''admin''\<rparr>"

text \<open>The user of the example hospital.\<close>

definition example_hospital_user :: authUser where
  "example_hospital_user = \<lparr>au_id = 70, au_role = ''hospital''\<rparr>"

text \<open>
  An active donor user with a given id, blood type, availability class, \<open>isAvailable\<close>
  flag and last blood donation date; a store with three of them; and the same store with
  a fourth whose \<open>availableForBloodDonation\<close> is false.
\<close>

definition example_donor_user :: "oid \<Rightarrow> string \<Rightarrow> string \<Rightarrow> bool \<Rightarrow> int option \<Rightarrow> user" where
  "example_donor_user i bt av avail lastDate =
    \<lparr>u_id = i, u_name = ''donor'', u_role = ''donor'', u_status = ''active'',
     u_donorProfile = Some
       \<lparr>dp_bloodType = bt, isAvailable = avail, availableForBloodDonation = True,
        lastBloodDonationDate = lastDate, organDonor = False, organsForDonation = [],
        dp_location = None, availability = av\<rparr>\<rparr>"

definition example_population :: db where
  "example_population = (example_db ''searching'' ''proposed'')
    \<lparr>users := [example_donor_user 21 ''O-'' ''flexible'' False (Some 0),
               example_donor_user 22 ''A+'' ''immediate'' True (Some 0),
               example_donor_user 23 ''A+'' ''immediate'' True None]\<rparr>"

definition example_gated_population :: db where
  "example_gated_population = example_population
    \<lparr>users := users example_population @
       [(example_donor_user 24 ''A+'' ''immediate'' True (Some 0))
          \<lparr>u_donorProfile := Some
            \<lparr>dp_bloodType = ''A+'', isAvailable = True, availableForBloodDonation = False,
             lastBloodDonationDate = Some 0, organDonor = False, organsForDonation = [],
             dp_location = None, availability = ''immediate''\<rparr>\<rparr>]\<rparr>"

text \<open>
  A compatible donor of immediate availability one hundredth of a degree of latitude
  (about 1.1 km) north of the example hospital, and a store whose only user it is.
\<close>

definition example_nearby_profile :: donorProfile where
  "example_nearby_profile =
    \<lparr>dp_bloodType = ''O-'', isAvailable = True, availableForBloodDonation = True,
     lastBloodDonationDate = Some 0, organDonor = False, organsForDonation = [],
     dp_location = Some (0, 1 / 100), availability = ''immediate''\<rparr>"

definition example_nearby_population :: db where
  "example_nearby_population = (example_db ''searching'' ''proposed'')
    \<lparr>users := [\<lparr>u_id = 25, u_name = ''donor'', u_role = ''donor'', u_status = ''active'',
                u_donorProfile = Some example_nearby_profile\<rparr>]\<rparr>"

section \<open>Properties\<close>

lemma getCompatibleBloodTypes_simps:
  "getCompatibleBloodTypes ''A+'' = [''A+'', ''A-'', ''O+'', ''O-'']"
  "getCompatibleBloodTypes ''A-'' = [''A-'', ''O-'']"
  "getCompatibleBloodTypes ''B+'' = [''B+'', ''B-'', ''O+'', ''O-'']"
  "getCompatibleBloodTypes ''B-'' = [''B-'', ''O-'']"
  "getCompatibleBloodTypes ''AB+'' = [''A+'', ''A-'', ''B+'', ''B-'', ''AB+'', ''AB-'', ''O+'', ''O-'']"
  "getCompatibleBloodTypes ''AB-'' = [''A-'', ''B-'', ''AB-'', ''O-'']"
  "getCompatibleBloodTypes ''O+'' = [''O+'', ''O-'']"
  "getCompatibleBloodTypes ''O-'' = [''O-'']"
  by (simp_all add: getCompatibleBloodTypes_def compatibility_def)

lemma compatibility_table:
  "\<forall>requested \<in> set bloodTypes. \<forall>donor \<in> set bloodTypes.
     (donor \<in> set (getCompatibleBloodTypes requested)) = (requested \<in> set (glossary_table donor))"
  by (simp add: bloodTypes_def getCompatibleBloodTypes_simps glossary_table_def)

lemma matchCriteria_blood:
  fixes request :: request and x :: user
  assumes "requestType request = ''blood''" "u_donorProfile x = Some p"
    and "availableForBloodDonation p" "lastBloodDonationDate p = Some date"
    and "date < now - 4838400000"
  shows "matchCriteria request now x =
    (dp_bloodType p \<in> set (getCompatibleBloodTypes (rq_bloodType request)))"
  using assms by (simp add: matchCriteria_def Let_def)

text \<open>
  C3. For each of the 64 pairs of a requested blood type and a donor blood type over the
  eight fixed values, the donor's type is among the types the source accepts for the
  requested type exactly when the glossary's table lists the requested type for that
  donor type; and the criteria of a blood search, for a donor who is available for blood
  donation and last donated more than 56 days ago, hold exactly then.
\<close>

theorem compatibility_agrees_with_glossary:
  "\<forall>requested \<in> set bloodTypes. \<forall>donor \<in> set bloodTypes.
     (donor \<in> set (getCompatibleBloodTypes requested)) = (requested \<in> set (glossary_table donor))
     \<and> (\<forall>(request :: request) now (x :: user) p date.
           requestType request = ''blood'' \<and> rq_bloodType request = requested
           \<and> u_donorProfile x = Some p \<and> dp_bloodType p = donor
           \<and> availableForBloodDonation p \<and> lastBloodDonationDate p = Some date
           \<and> date < now - 4838400000
          \<longrightarrow> matchCriteria request now x = (requested \<in> set (glossary_table donor)))"
proof (intro ballI conjI allI impI)
  fix requested donor
  assume r: "requested \<in> set bloodTypes" and d: "donor \<in> set bloodTypes"
  then show t: "(donor \<in> set (getCompatibleBloodTypes requested)) = (requested \<in> set (glossary_table donor))"
    using compatibility_table by blast
  fix request :: request and now and x :: user and p date
  assume "requestType request = ''blood'' \<and> rq_bloodType request = requested
           \<and> u_donorProfile x = Some p \<and> dp_bloodType p = donor
           \<and> availableForBloodDonation p \<and> lastBloodDonationDate p = Some date
           \<and> date < now - 4838400000"
  then show "matchCriteria request now x = (requested \<in> set (glossary_table donor))"
    using matchCriteria_blood[of request x p date now] t by auto
qed

text \<open>The theorem of C3 for a request of \<open>A+\<close> and a donor of \<open>O-\<close>.\<close>

theorem compatibility_agrees_with_glossary_witness:
  "''A+'' \<in> set bloodTypes \<and> ''O-'' \<in> set bloodTypes
   \<and> ''O-'' \<in> set (getCompatibleBloodTypes ''A+'') \<and> ''A+'' \<in> set (glossary_table ''O-'')
   \<and> matchCriteria (example_stored_request ''searching'') 10000000000
        (example_donor_user 21 ''O-'' ''flexible'' False (Some 0))"
proof -
  have a: "''A+'' \<in> set bloodTypes" and o: "''O-'' \<in> set bloodTypes"
    by (simp_all add: bloodTypes_def)
  note t = compatibility_agrees_with_glossary[rule_format, OF a o]
  have g: "''A+'' \<in> set (glossary_table ''O-'')" by (simp add: glossary_table_def)
  have c: "''O-'' \<in> set (getCompatibleBloodTypes ''A+'')"
    using t[THEN conjunct1] g by simp
  have "matchCriteria (example_stored_request ''searching'') 10000000000
        (example_donor_user 21 ''O-'' ''flexible'' False (Some 0)) = (''A+'' \<in> set (glossary_table ''O-''))"
    by (rule t[THEN conjunct2, rule_format, of _ _
          "\<lparr>dp_bloodType = ''O-'', isAvailable = False, availableForBloodDonation = True,
            lastBloodDonationDate = Some 0, organDonor = False, organsForDonation = [],
            dp_location = None, availability = ''flexible''\<rparr>" 0])
      (simp add: example_stored_request_def example_donor_user_def)
  with a o c g show ?thesis by simp
qed

subsection \<open>Scoring\<close>

lemma compatible_truthy:
  assumes "d \<in> set (getCompatibleBloodTypes r)"
  shows "truthy r \<and> truthy d"
proof -
  from assms have "map_of compatibility r \<noteq> None"
    by (cases "map_of compatibility r") (simp_all add: getCompatibleBloodTypes_def)
  then have r: "r \<in> set bloodTypes"
    by (auto simp: compatibility_def bloodTypes_def split: if_splits)
  with assms have "d \<in> set bloodTypes"
    by (auto simp: bloodTypes_def getCompatibleBloodTypes_simps)
  with r show ?thesis
    by (auto simp: truthy_def bloodTypes_def)
qed

lemma compatibilityPoints_eq:
  "compatibilityPoints request dp =
    (if dp_bloodType dp \<in> set (getCompatibleBloodTypes (rq_bloodType request)) then 40 else 0)"
  using compatible_truthy[of "dp_bloodType dp" "rq_bloodType request"]
  by (simp add: compatibilityPoints_def Let_def)

lemma compatibilityPoints_range: "compatibilityPoints request dp \<in> {0, 40}"
  by (simp add: compatibilityPoints_def Let_def)

lemma distancePoints_range: "distancePoints request dp \<in> {0, 10, 20, 30}"
  by (simp add: distancePoints_def Let_def split: option.splits)

lemma availabilityPoints_range: "availabilityPoints dp \<in> {10, 20, 30}"
  by (simp add: availabilityPoints_def)

lemma score_sum: "calculateMatchScore request dp =
   min 100 (compatibilityPoints request dp + distancePoints request dp + availabilityPoints dp)"
  by (simp add: calculateMatchScore_def Let_def)

lemma sum_le_100: "compatibilityPoints request dp + distancePoints request dp + availabilityPoints dp \<le> 100"
  using compatibilityPoints_range[of request dp] distancePoints_range[of request dp]
    availabilityPoints_range[of dp] by auto

lemma score_unclamped: "calculateMatchScore request dp =
   compatibilityPoints request dp + distancePoints request dp + availabilityPoints dp"
  using sum_le_100[of request dp] by (simp add: score_sum)

text \<open>
  A request as \<open>Request.findById\<close> returns it holds the hospital's id, not its
  document: for such a request the distance block is skipped, and the score is at most
  70.
\<close>

lemma distancePoints_unpopulated:
  "rq_hospital request = HospitalId i \<Longrightarrow> distancePoints request dp = 0"
  by (simp add: distancePoints_def)

lemma score_unpopulated:
  assumes "rq_hospital request = HospitalId i"
  shows "calculateMatchScore request dp = compatibilityPoints request dp + availabilityPoints dp"
    and "calculateMatchScore request dp \<le> 70"
  using compatibilityPoints_range[of request dp] availabilityPoints_range[of dp]
    distancePoints_unpopulated[OF assms, of dp]
  by (auto simp: score_unclamped)

text \<open>
  The haversine distance of two points on one meridian is the arc between their
  latitudes on a sphere of radius 6371.
\<close>

lemma atan2_sin_cos:
  assumes "0 \<le> x" "x < pi / 2"
  shows "Math_atan2 (sqrt (sin x * sin x)) (sqrt (1 - sin x * sin x)) = x"
proof -
  have c: "0 < cos x" using assms by (intro cos_gt_zero_pi) auto
  have s: "0 \<le> sin x" using assms by (intro sin_ge_zero) auto
  have "1 - sin x * sin x = cos x * cos x"
    using sin_cos_squared_add[of x] by (simp add: power2_eq_square algebra_simps)
  then have "sqrt (1 - sin x * sin x) = cos x" using c by simp
  moreover have "sqrt (sin x * sin x) = sin x" using s by simp
  moreover have "arctan (sin x / cos x) = x"
    using assms arctan_tan[of x] by (simp add: tan_def)
  ultimately show ?thesis using c by (simp add: Math_atan2_def)
qed

lemma meridian_distance:
  assumes "0 \<le> lat" "lat < 180"
  shows "calculateDistance (lon, 0) (lon, lat) = 6371 * (lat * pi / 180)"
proof -
  let ?x = "lat * pi / 180 / 2"
  have "0 \<le> ?x" using assms by simp
  moreover have "?x < pi / 2" using assms by simp
  ultimately have eq: "Math_atan2 (sqrt (sin ?x * sin ?x)) (sqrt (1 - sin ?x * sin ?x)) = ?x"
    by (rule atan2_sin_cos)
  have "calculateDistance (lon, 0) (lon, lat) =
      6371 * (2 * Math_atan2 (sqrt (sin ?x * sin ?x)) (sqrt (1 - sin ?x * sin ?x)))"
    by (simp add: calculateDistance_def Let_def)
  also have "\<dots> = 6371 * (2 * ?x)" by (simp only: eq)
  also have "\<dots> = 6371 * (lat * pi / 180)" by simp
  finally show ?thesis .
qed

lemma example_nearby_distance:
  "calculateDistance (0, 0) (0, 1 / 100) = 6371 * pi / 18000"
  "0 < calculateDistance (0, 0) (0, 1 / 100)"
  "calculateDistance (0, 0) (0, 1 / 100) < 10"
  using pi_less_4 pi_gt_zero by (simp_all add: meridian_distance)

subsection \<open>Request status\<close>

lemma find_replace:
  assumes "find (\<lambda>x. f x = k) xs = Some old" "f new = k"
  shows "find (\<lambda>x. f x = k) (map (\<lambda>x. if f x = k then new else x) xs) = Some new"
  using assms by (induction xs) (auto split: if_splits)

lemma find_key:
  "find (\<lambda>x. f x = k) xs = Some y \<Longrightarrow> f y = k"
  by (induction xs) (auto split: if_splits)

lemma Request_findById_id:
  "Request_findById d i = Some request \<Longrightarrow> rq_id request = i"
  unfolding Request_findById_def by (rule find_key)

lemma Request_findById_save:
  assumes "Request_findById d i = Some old" "rq_id r = i"
  shows "Request_findById (Request_save d r) i = Some r"
  using find_replace[of rq_id i "requests d" old r] assms
  by (simp add: Request_findById_def Request_save_def)

lemma check_isIn_empty:
  "(check_isIn f msg vs = []) = (fieldInstances f \<noteq> [] \<and> set (fieldInstances f) \<subseteq> set vs)"
  by (auto simp: check_isIn_def filter_empty_conv)

lemma body_outside_invalid:
  assumes "inBody f = Some s" "s \<notin> set vs"
  shows "\<not> (fieldInstances f \<noteq> [] \<and> set (fieldInstances f) \<subseteq> set vs)"
  using assms by (simp add: fieldInstances_def)

lemma updateRequestStatus_invalid:
  "errors \<noteq> [] \<Longrightarrow> updateRequestStatus errors i u newStatus notes d = (Errors 400 errors, d)"
  by (simp add: updateRequestStatus_def)

text \<open>
  C1, as the code has it. For a request that exists and a caller who passes the
  handler's permission check: when validation passes (the request carries the field
  \<open>status\<close> somewhere, and every instance of it is one of the six values of the route's
  validator), the status update succeeds whatever the current status (edge of the
  transition graph or not, terminal or not): it sets the status to the body's status
  (the absent one when the body has none), appends exactly one entry to the status
  history and stores the request. When validation fails, and so whenever the body's
  status is outside the six values, the answer is 400 and the store is unchanged.
\<close>

theorem patch_request_status_any_listed_target:
  assumes "Request_findById d i = Some request"
    and "au_role u = ''hospital'' \<longrightarrow> hospitalOwnsRequest d u request"
  shows "(fieldInstances f \<noteq> [] \<and> set (fieldInstances f) \<subseteq> set requestStatusValues \<longrightarrow>
           patch_request_status i u f notes d = (Json 200 (request\<lparr>rq_status := bodyValue f,
                  rq_statusHistory := rq_statusHistory request @
                    [\<lparr>se_status = bodyValue f, se_updatedBy = au_id u,
                      se_notes = notesOrEmpty notes\<rparr>]\<rparr>), Request_save d (request\<lparr>rq_status := bodyValue f,
                  rq_statusHistory := rq_statusHistory request @
                    [\<lparr>se_status = bodyValue f, se_updatedBy = au_id u,
                      se_notes = notesOrEmpty notes\<rparr>]\<rparr>))
           \<and> Request_findById (snd (patch_request_status i u f notes d)) i = Some (request\<lparr>rq_status := bodyValue f,
                  rq_statusHistory := rq_statusHistory request @
                    [\<lparr>se_status = bodyValue f, se_updatedBy = au_id u,
                      se_notes = notesOrEmpty notes\<rparr>]\<rparr>))
       \<and> (\<not> (fieldInstances f \<noteq> [] \<and> set (fieldInstances f) \<subseteq> set requestStatusValues) \<longrightarrow>
           patch_request_status i u f notes d =
             (Errors 400 (check_isIn f ''Status is required'' requestStatusValues), d)
           \<and> check_isIn f ''Status is required'' requestStatusValues \<noteq> [])
       \<and> (\<forall>s. inBody f = Some s \<and> s \<notin> set requestStatusValues \<longrightarrow>
           patch_request_status i u f notes d =
             (Errors 400 (check_isIn f ''Status is required'' requestStatusValues), d))"
proof -
  let ?r' = "request\<lparr>rq_status := bodyValue f,
                  rq_statusHistory := rq_statusHistory request @
                    [\<lparr>se_status = bodyValue f, se_updatedBy = au_id u,
                      se_notes = notesOrEmpty notes\<rparr>]\<rparr>"
  let ?e = "check_isIn f ''Status is required'' requestStatusValues"
  have bad: "patch_request_status i u f notes d = (Errors 400 ?e, d) \<and> ?e \<noteq> []"
    if "\<not> (fieldInstances f \<noteq> [] \<and> set (fieldInstances f) \<subseteq> set requestStatusValues)"
  proof -
    have "?e \<noteq> []" using that by (simp add: check_isIn_empty)
    then show ?thesis
      by (simp add: patch_request_status_def updateRequestStatus_invalid)
  qed
  have good: "patch_request_status i u f notes d = (Json 200 ?r', Request_save d ?r')
      \<and> Request_findById (snd (patch_request_status i u f notes d)) i = Some ?r'"
    if "fieldInstances f \<noteq> [] \<and> set (fieldInstances f) \<subseteq> set requestStatusValues"
  proof -
    have e: "?e = []" using that by (simp add: check_isIn_empty)
    have res: "patch_request_status i u f notes d = (Json 200 ?r', Request_save d ?r')"
      using assms by (simp add: patch_request_status_def e updateRequestStatus_def Let_def)
    have "rq_id ?r' = i" using assms(1) by (simp add: Request_findById_id)
    then have "Request_findById (Request_save d ?r') i = Some ?r'"
      by (rule Request_findById_save[OF assms(1)])
    with res show ?thesis by simp
  qed
  have body: "patch_request_status i u f notes d = (Errors 400 ?e, d)"
    if "inBody f = Some s \<and> s \<notin> set requestStatusValues" for s
    using bad body_outside_invalid[of f s requestStatusValues] that by blast
  from good bad body show ?thesis by blast
qed

lemma example_request_found:
  "Request_findById (example_db rs ms) 11 = Some (example_stored_request rs)"
  by (simp add: Request_findById_def example_db_def example_stored_request_def)

lemma example_hospital_owns:
  "hospitalOwnsRequest (example_db rs ms) example_hospital_user (example_stored_request rs')"
  by (simp add: hospitalOwnsRequest_def Hospital_findOne_def example_db_def example_hospital_def
      example_hospital_user_def example_stored_request_def)

lemma example_match_found:
  "Match_findById (example_db rs ms) 3 = Some (example_match ms)"
  by (simp add: Match_findById_def example_db_def example_match_def)

lemma example_admin_role: "au_role example_admin = ''admin''" "au_id example_admin = 90"
  by (simp_all add: example_admin_def)

lemma field_facts:
  "fieldInstances \<lparr>inBody = Some s, elsewhere = []\<rparr> = [s]"
  "fieldInstances \<lparr>inBody = None, elsewhere = vs\<rparr> = vs"
  "bodyValue \<lparr>inBody = Some s, elsewhere = vs\<rparr> = s"
  "bodyValue \<lparr>inBody = None, elsewhere = vs\<rparr> = []"
  by (simp_all add: fieldInstances_def bodyValue_def)

text \<open>
  C1 fails as stated: \<open>completed\<close> is terminal and \<open>(completed, pending)\<close> is not
  an edge of the graph, yet the update of a completed request to \<open>pending\<close> succeeds
  and is stored.
\<close>

theorem request_transition_counterexample:
  "(''completed'', ''pending'') \<notin> set request_graph \<and> request_terminal ''completed''
   \<and> rq_status (example_stored_request ''completed'') = ''completed''
   \<and> patch_request_status 11 example_admin \<lparr>inBody = Some ''pending'', elsewhere = []\<rparr> None
        (example_db ''completed'' ''proposed'') =
      (Json 200 ((example_stored_request ''pending'')
         \<lparr>rq_statusHistory := [\<lparr>se_status = ''pending'', se_updatedBy = 90, se_notes = []\<rparr>]\<rparr>),
       example_db ''pending'' ''proposed''
         \<lparr>requests := [(example_stored_request ''pending'')
         \<lparr>rq_statusHistory := [\<lparr>se_status = ''pending'', se_updatedBy = 90, se_notes = []\<rparr>]\<rparr>]\<rparr>)"
  by (simp add: request_graph_def request_terminal_def patch_request_status_def
      updateRequestStatus_def check_isIn_def field_facts requestStatusValues_def example_request_found
      example_admin_role Request_save_def notesOrEmpty_def Let_def)
    (simp add: example_db_def example_stored_request_def)

text \<open>
  The theorem of C1 at the example store, for the user of the request's hospital: a
  listed status in the body, a listed status in the query with no status in the body,
  and an unlisted status in the body.
\<close>

theorem patch_request_status_any_listed_target_witness:
  "Request_findById (example_db ''completed'' ''proposed'') 11 = Some (example_stored_request ''completed'')
   \<and> au_role example_hospital_user = ''hospital''
   \<and> hospitalOwnsRequest (example_db ''completed'' ''proposed'') example_hospital_user
        (example_stored_request ''completed'')
   \<and> Request_findById (snd (patch_request_status 11 example_hospital_user
         \<lparr>inBody = Some ''pending'', elsewhere = []\<rparr> None
         (example_db ''completed'' ''proposed''))) 11 =
      Some ((example_stored_request ''pending'')
         \<lparr>rq_statusHistory := [\<lparr>se_status = ''pending'', se_updatedBy = 70, se_notes = []\<rparr>]\<rparr>)
   \<and> Request_findById (snd (patch_request_status 11 example_hospital_user
         \<lparr>inBody = None, elsewhere = [''cancelled'']\<rparr> None
         (example_db ''completed'' ''proposed''))) 11 =
      Some ((example_stored_request [])
         \<lparr>rq_statusHistory := [\<lparr>se_status = [], se_updatedBy = 70, se_notes = []\<rparr>]\<rparr>)
   \<and> patch_request_status 11 example_hospital_user
         \<lparr>inBody = Some ''fulfilled'', elsewhere = [''cancelled'']\<rparr> None
         (example_db ''completed'' ''proposed'') =
      (Errors 400 [''Status is required''], example_db ''completed'' ''proposed'')"
proof -
  let ?d = "example_db ''completed'' ''proposed''"
  have role: "au_role example_hospital_user = ''hospital''"
    by (simp add: example_hospital_user_def)
  have r: "au_role example_hospital_user = ''hospital'' \<longrightarrow>
      hospitalOwnsRequest ?d example_hospital_user (example_stored_request ''completed'')"
    using example_hospital_owns by simp
  note t = patch_request_status_any_listed_target[OF example_request_found r]
  have v1: "fieldInstances \<lparr>inBody = Some ''pending'', elsewhere = []\<rparr> \<noteq> []
      \<and> set (fieldInstances \<lparr>inBody = Some ''pending'', elsewhere = []\<rparr>) \<subseteq> set requestStatusValues"
    by (simp add: field_facts requestStatusValues_def)
  have v2: "fieldInstances \<lparr>inBody = None, elsewhere = [''cancelled'']\<rparr> \<noteq> []
      \<and> set (fieldInstances \<lparr>inBody = None, elsewhere = [''cancelled'']\<rparr>) \<subseteq> set requestStatusValues"
    by (simp add: field_facts requestStatusValues_def)
  have v3: "inBody \<lparr>inBody = Some ''fulfilled'', elsewhere = [''cancelled'']\<rparr> = Some ''fulfilled''
      \<and> ''fulfilled'' \<notin> set requestStatusValues"
    by (simp add: requestStatusValues_def)
  have a: "Request_findById (snd (patch_request_status 11 example_hospital_user
         \<lparr>inBody = Some ''pending'', elsewhere = []\<rparr> None ?d)) 11 =
      Some ((example_stored_request ''pending'')
         \<lparr>rq_statusHistory := [\<lparr>se_status = ''pending'', se_updatedBy = 70, se_notes = []\<rparr>]\<rparr>)"
    using t[of "\<lparr>inBody = Some ''pending'', elsewhere = []\<rparr>" None, THEN conjunct1, rule_format,
        OF v1, THEN conjunct2]
    by (simp add: field_facts example_stored_request_def example_hospital_user_def notesOrEmpty_def)
  have b: "Request_findById (snd (patch_request_status 11 example_hospital_user
         \<lparr>inBody = None, elsewhere = [''cancelled'']\<rparr> None ?d)) 11 =
      Some ((example_stored_request [])
         \<lparr>rq_statusHistory := [\<lparr>se_status = [], se_updatedBy = 70, se_notes = []\<rparr>]\<rparr>)"
    using t[of "\<lparr>inBody = None, elsewhere = [''cancelled'']\<rparr>" None, THEN conjunct1, rule_format,
        OF v2, THEN conjunct2]
    by (simp add: field_facts example_stored_request_def example_hospital_user_def notesOrEmpty_def)
  have c: "patch_request_status 11 example_hospital_user
         \<lparr>inBody = Some ''fulfilled'', elsewhere = [''cancelled'']\<rparr> None ?d =
      (Errors 400 [''Status is required''], ?d)"
    using t[of "\<lparr>inBody = Some ''fulfilled'', elsewhere = [''cancelled'']\<rparr>" None,
        THEN conjunct2, THEN conjunct2, rule_format, OF v3]
    by (simp add: check_isIn_def fieldInstances_def requestStatusValues_def)
  show ?thesis
    using example_request_found role example_hospital_owns a b c by (intro conjI)
qed

subsection \<open>Match status\<close>

lemma find_update:
  assumes "find (\<lambda>x. f x = k) xs = Some old" "\<And>x. f x = k \<Longrightarrow> f (g x) = k"
  shows "find (\<lambda>x. f x = k) (map (\<lambda>x. if f x = k then g x else x) xs) = Some (g old)"
  using assms by (induction xs) (auto split: if_splits)

lemma Match_findById_id: "Match_findById d i = Some m \<Longrightarrow> m_id m = i"
  unfolding Match_findById_def by (rule find_key)

lemma Match_findById_save:
  assumes "Match_findById d i = Some old" "m_id m = i"
  shows "Match_findById (Match_save d m) i = Some m"
  using find_replace[of m_id i "matches d" old m] assms
  by (simp add: Match_findById_def Match_save_def)

lemma Match_findById_request_update [simp]:
  "Match_findById (Request_findByIdAndUpdate d j s) i = Match_findById d i"
  by (simp add: Match_findById_def Request_findByIdAndUpdate_def)

lemma Request_findById_Match_save [simp]:
  "Request_findById (Match_save d m) i = Request_findById d i"
  by (simp add: Request_findById_def Match_save_def)

lemma Request_findById_update:
  assumes "Request_findById d i = Some request"
  shows "Request_findById (Request_findByIdAndUpdate d i s) i = Some (request\<lparr>rq_status := s\<rparr>)"
  using find_update[of rq_id i "requests d" request "\<lambda>x. x\<lparr>rq_status := s\<rparr>"] assms
  by (simp add: Request_findById_def Request_findByIdAndUpdate_def)

lemma updateMatchStatus_permitted:
  assumes "Match_findById d i = Some m" "matchStatusPermission d u m newStatus = Inr True"
  shows "updateMatchStatus [] i u newStatus notes d =
    (Json 200 (m\<lparr>m_status := newStatus,
                  m_statusHistory := m_statusHistory m @
                    [\<lparr>se_status = newStatus, se_updatedBy = au_id u,
                      se_notes = notesOrEmpty notes\<rparr>]\<rparr>),
     (if newStatus = ''rejected''
      then Request_findByIdAndUpdate
        (Match_save d (m\<lparr>m_status := newStatus,
                  m_statusHistory := m_statusHistory m @
                    [\<lparr>se_status = newStatus, se_updatedBy = au_id u,
                      se_notes = notesOrEmpty notes\<rparr>]\<rparr>)) (m_request m) ''searching''
      else Match_save d (m\<lparr>m_status := newStatus,
                  m_statusHistory := m_statusHistory m @
                    [\<lparr>se_status = newStatus, se_updatedBy = au_id u,
                      se_notes = notesOrEmpty notes\<rparr>]\<rparr>)))"
  using assms by (simp add: updateMatchStatus_def Let_def)

text \<open>
  C2, as the code has it. Whoever the actor is, a request whose validation fails (no
  instance of \<open>status\<close>, or an instance outside the eight values of the route's
  validator, in particular a body status outside them) is answered 400 and the store is
  unchanged. For a match that exists, a request that passes validation and an actor
  whom the permission block admits, the update is accepted whatever the match's current
  status: the status is set to the body's status (the absent one when the body has
  none) and exactly one entry is appended to the status history.
\<close>

theorem patch_match_status_any_listed_target:
  "(\<not> (fieldInstances f \<noteq> [] \<and> set (fieldInstances f) \<subseteq> set matchStatusValues) \<longrightarrow>
      patch_match_status i u f notes d =
        (Errors 400 (check_isIn f ''Status is required'' matchStatusValues), d)
      \<and> check_isIn f ''Status is required'' matchStatusValues \<noteq> [])
   \<and> (\<forall>s. inBody f = Some s \<and> s \<notin> set matchStatusValues \<longrightarrow>
      patch_match_status i u f notes d =
        (Errors 400 (check_isIn f ''Status is required'' matchStatusValues), d))
   \<and> ((fieldInstances f \<noteq> [] \<and> set (fieldInstances f) \<subseteq> set matchStatusValues) \<and> Match_findById d i = Some m
       \<and> matchStatusPermission d u m (bodyValue f) = Inr True \<longrightarrow>
      fst (patch_match_status i u f notes d) = Json 200 (m\<lparr>m_status := bodyValue f,
                  m_statusHistory := m_statusHistory m @
                    [\<lparr>se_status = bodyValue f, se_updatedBy = au_id u,
                      se_notes = notesOrEmpty notes\<rparr>]\<rparr>)
      \<and> Match_findById (snd (patch_match_status i u f notes d)) i = Some (m\<lparr>m_status := bodyValue f,
                  m_statusHistory := m_statusHistory m @
                    [\<lparr>se_status = bodyValue f, se_updatedBy = au_id u,
                      se_notes = notesOrEmpty notes\<rparr>]\<rparr>))"
proof -
  let ?m' = "m\<lparr>m_status := bodyValue f,
                  m_statusHistory := m_statusHistory m @
                    [\<lparr>se_status = bodyValue f, se_updatedBy = au_id u,
                      se_notes = notesOrEmpty notes\<rparr>]\<rparr>"
  let ?e = "check_isIn f ''Status is required'' matchStatusValues"
  have bad: "patch_match_status i u f notes d = (Errors 400 ?e, d) \<and> ?e \<noteq> []"
    if "\<not> (fieldInstances f \<noteq> [] \<and> set (fieldInstances f) \<subseteq> set matchStatusValues)"
  proof -
    have "?e \<noteq> []" using that by (simp add: check_isIn_empty)
    then show ?thesis
      by (simp add: patch_match_status_def updateMatchStatus_def)
  qed
  have body: "patch_match_status i u f notes d = (Errors 400 ?e, d)"
    if "inBody f = Some s \<and> s \<notin> set matchStatusValues" for s
    using bad body_outside_invalid[of f s matchStatusValues] that by blast
  have good: "fst (patch_match_status i u f notes d) = Json 200 ?m'
      \<and> Match_findById (snd (patch_match_status i u f notes d)) i = Some ?m'"
    if v: "fieldInstances f \<noteq> [] \<and> set (fieldInstances f) \<subseteq> set matchStatusValues" and found: "Match_findById d i = Some m"
      and perm: "matchStatusPermission d u m (bodyValue f) = Inr True"
  proof -
    have e: "?e = []" using v by (simp add: check_isIn_empty)
    have 1: "fst (patch_match_status i u f notes d) = Json 200 ?m'"
      by (simp add: patch_match_status_def e updateMatchStatus_permitted[OF found perm])
    have s: "Match_findById (Match_save d ?m') i = Some ?m'"
      by (rule Match_findById_save[OF found]) (use found in \<open>simp add: Match_findById_id\<close>)
    have "Match_findById (snd (patch_match_status i u f notes d)) i =
        Match_findById (Match_save d ?m') i"
      by (simp only: patch_match_status_def e updateMatchStatus_permitted[OF found perm] snd_conv
          if_distrib[of "\<lambda>x. Match_findById x i"] Match_findById_request_update if_cancel)
    also note s
    finally show ?thesis using 1 by simp
  qed
  from bad body good show ?thesis by blast
qed

lemma no_edge_from_transplanted: "(''transplanted'', t) \<notin> set match_graph"
  by (simp add: match_graph_def)

lemma transplanted_reaches_nothing: "\<not> match_reachable ''transplanted'' t"
proof
  assume "match_reachable ''transplanted'' t"
  then have "(''transplanted'', t) \<in> (set match_graph)\<^sup>+"
    by (simp only: match_reachable_def)
  then obtain z where "(''transplanted'', z) \<in> set match_graph"
    by (blast dest: tranclD)
  then show False by (simp only: no_edge_from_transplanted)
qed

lemma example_admin_permission:
  "matchStatusPermission d example_admin m s = Inr True"
  by (simp add: matchStatusPermission_def example_admin_def)

text \<open>
  C2 fails as stated: nothing is reachable from the terminal status \<open>transplanted\<close>,
  yet the update of a transplanted match to \<open>proposed\<close> succeeds and is stored.
\<close>

theorem match_transition_counterexample:
  "\<not> match_reachable ''transplanted'' ''proposed'' \<and> match_terminal ''transplanted''
   \<and> m_status (example_match ''transplanted'') = ''transplanted''
   \<and> Match_findById (example_db ''completed'' ''transplanted'') 3 = Some (example_match ''transplanted'')
   \<and> patch_match_status 3 example_admin \<lparr>inBody = Some ''proposed'', elsewhere = []\<rparr> None
        (example_db ''completed'' ''transplanted'') =
      (Json 200 ((example_match ''proposed'')
         \<lparr>m_statusHistory := [\<lparr>se_status = ''proposed'', se_updatedBy = 90, se_notes = []\<rparr>]\<rparr>),
       example_db ''completed'' ''transplanted''
         \<lparr>matches := [(example_match ''proposed'')
         \<lparr>m_statusHistory := [\<lparr>se_status = ''proposed'', se_updatedBy = 90, se_notes = []\<rparr>]\<rparr>]\<rparr>)"
proof -
  have "patch_match_status 3 example_admin \<lparr>inBody = Some ''proposed'', elsewhere = []\<rparr> None
        (example_db ''completed'' ''transplanted'') =
      (Json 200 ((example_match ''proposed'')
         \<lparr>m_statusHistory := [\<lparr>se_status = ''proposed'', se_updatedBy = 90, se_notes = []\<rparr>]\<rparr>),
       example_db ''completed'' ''transplanted''
         \<lparr>matches := [(example_match ''proposed'')
         \<lparr>m_statusHistory := [\<lparr>se_status = ''proposed'', se_updatedBy = 90, se_notes = []\<rparr>]\<rparr>]\<rparr>)"
    by (simp add: patch_match_status_def check_isIn_def field_facts matchStatusValues_def
        updateMatchStatus_permitted[OF example_match_found example_admin_permission]
        example_admin_role notesOrEmpty_def Match_save_def)
      (simp add: example_db_def example_match_def)
  then show ?thesis
    using transplanted_reaches_nothing example_match_found
    by (simp add: match_terminal_def example_match_def)
qed

text \<open>
  The theorem of C2 at the example store: an unlisted status in the body, no status
  anywhere, a listed status in the body, and a listed status in the query with no status
  in the body.
\<close>

theorem patch_match_status_any_listed_target_witness:
  "patch_match_status 3 example_admin \<lparr>inBody = Some ''completed'', elsewhere = [''failed'']\<rparr> None
       (example_db ''matched'' ''transplanted'')
       = (Errors 400 [''Status is required''], example_db ''matched'' ''transplanted'')
   \<and> patch_match_status 3 example_admin \<lparr>inBody = None, elsewhere = []\<rparr> None
       (example_db ''matched'' ''transplanted'')
       = (Errors 400 [''Status is required''], example_db ''matched'' ''transplanted'')
   \<and> Match_findById (example_db ''matched'' ''transplanted'') 3 = Some (example_match ''transplanted'')
   \<and> Match_findById (snd (patch_match_status 3 example_admin
         \<lparr>inBody = Some ''proposed'', elsewhere = []\<rparr> None
         (example_db ''matched'' ''transplanted''))) 3 =
        Some ((example_match ''proposed'')
          \<lparr>m_statusHistory := [\<lparr>se_status = ''proposed'', se_updatedBy = 90, se_notes = []\<rparr>]\<rparr>)
   \<and> Match_findById (snd (patch_match_status 3 example_admin
         \<lparr>inBody = None, elsewhere = [''failed'']\<rparr> None
         (example_db ''matched'' ''transplanted''))) 3 =
        Some ((example_match [])
          \<lparr>m_statusHistory := [\<lparr>se_status = [], se_updatedBy = 90, se_notes = []\<rparr>]\<rparr>)"
proof -
  let ?d = "example_db ''matched'' ''transplanted''"
  note t = patch_match_status_any_listed_target
  have v1: "inBody \<lparr>inBody = Some ''completed'', elsewhere = [''failed'']\<rparr> = Some ''completed''
      \<and> ''completed'' \<notin> set matchStatusValues"
    by (simp add: matchStatusValues_def)
  have v2: "\<not> (fieldInstances \<lparr>inBody = None, elsewhere = []\<rparr> \<noteq> []
      \<and> set (fieldInstances \<lparr>inBody = None, elsewhere = []\<rparr>) \<subseteq> set matchStatusValues)"
    by (simp add: field_facts)
  have v3: "fieldInstances \<lparr>inBody = Some ''proposed'', elsewhere = []\<rparr> \<noteq> []
      \<and> set (fieldInstances \<lparr>inBody = Some ''proposed'', elsewhere = []\<rparr>) \<subseteq> set matchStatusValues"
    by (simp add: field_facts matchStatusValues_def)
  have v4: "fieldInstances \<lparr>inBody = None, elsewhere = [''failed'']\<rparr> \<noteq> []
      \<and> set (fieldInstances \<lparr>inBody = None, elsewhere = [''failed'']\<rparr>) \<subseteq> set matchStatusValues"
    by (simp add: field_facts matchStatusValues_def)
  have a: "patch_match_status 3 example_admin \<lparr>inBody = Some ''completed'', elsewhere = [''failed'']\<rparr> None ?d
       = (Errors 400 [''Status is required''], ?d)"
    using t[THEN conjunct2, THEN conjunct1, rule_format, OF v1, of 3 example_admin None ?d]
    by (simp add: check_isIn_def fieldInstances_def matchStatusValues_def)
  have b: "patch_match_status 3 example_admin \<lparr>inBody = None, elsewhere = []\<rparr> None ?d
       = (Errors 400 [''Status is required''], ?d)"
    using t[THEN conjunct1, rule_format, OF v2, THEN conjunct1, of 3 example_admin None ?d]
    by (simp add: check_isIn_def fieldInstances_def)
  have c: "Match_findById (snd (patch_match_status 3 example_admin
         \<lparr>inBody = Some ''proposed'', elsewhere = []\<rparr> None ?d)) 3 =
        Some ((example_match ''proposed'')
          \<lparr>m_statusHistory := [\<lparr>se_status = ''proposed'', se_updatedBy = 90, se_notes = []\<rparr>]\<rparr>)"
    using t[THEN conjunct2, THEN conjunct2, rule_format,
        OF conjI[OF v3 conjI[OF example_match_found example_admin_permission]], THEN conjunct2]
    by (simp add: field_facts example_match_def example_admin_role notesOrEmpty_def)
  have d: "Match_findById (snd (patch_match_status 3 example_admin
         \<lparr>inBody = None, elsewhere = [''failed'']\<rparr> None ?d)) 3 =
        Some ((example_match [])
          \<lparr>m_statusHistory := [\<lparr>se_status = [], se_updatedBy = 90, se_notes = []\<rparr>]\<rparr>)"
    using t[THEN conjunct2, THEN conjunct2, rule_format,
        OF conjI[OF v4 conjI[OF example_match_found example_admin_permission]], THEN conjunct2]
    by (simp add: field_facts example_match_def example_admin_role notesOrEmpty_def)
  show ?thesis using a b example_match_found c d by (intro conjI)
qed

subsection \<open>Rejecting a match\<close>

text \<open>
  C6, as the code has it. When a match is moved to \<open>rejected\<close> (the body's status is
  \<open>rejected\<close> and the request passes validation), the status of the owning request is
  set to \<open>searching\<close> whatever it was before, terminal or not; the rest of the
  request, its status history included, stays as it was.
\<close>

theorem rejected_match_resets_request:
  assumes "Match_findById d i = Some m"
    and "matchStatusPermission d u m ''rejected'' = Inr True"
    and "Request_findById d (m_request m) = Some request"
    and "inBody f = Some ''rejected''" and "set (elsewhere f) \<subseteq> set matchStatusValues"
  shows "Request_findById (snd (patch_match_status i u f notes d)) (m_request m) =
           Some (request\<lparr>rq_status := ''searching''\<rparr>)"
proof -
  have "fieldInstances f \<noteq> [] \<and> set (fieldInstances f) \<subseteq> set matchStatusValues"
    using assms(4,5) by (simp add: fieldInstances_def matchStatusValues_def)
  then have e: "check_isIn f ''Status is required'' matchStatusValues = []"
    by (simp add: check_isIn_empty)
  have b: "bodyValue f = ''rejected''" using assms(4) by (simp add: bodyValue_def)
  show ?thesis
    using assms(3)
    by (simp add: patch_match_status_def e b updateMatchStatus_permitted[OF assms(1,2)]
        Request_findById_update)
qed

text \<open>
  C6 fails as stated: a completed request, which is terminal, is moved to
  \<open>searching\<close> when its match is rejected.
\<close>

theorem rejected_match_terminal_request_counterexample:
  "request_terminal ''completed''
   \<and> Request_findById (example_db ''completed'' ''proposed'') 11 = Some (example_stored_request ''completed'')
   \<and> rq_status (example_stored_request ''completed'') = ''completed''
   \<and> Request_findById (snd (patch_match_status 3 example_admin
        \<lparr>inBody = Some ''rejected'', elsewhere = []\<rparr> None
        (example_db ''completed'' ''proposed''))) 11 = Some (example_stored_request ''searching'')"
proof -
  have e: "check_isIn \<lparr>inBody = Some ''rejected'', elsewhere = []\<rparr> ''Status is required'' matchStatusValues = []"
    by (simp add: check_isIn_def field_facts matchStatusValues_def)
  have m: "m_request (example_match ''proposed'') = 11" by (simp add: example_match_def)
  have rf: "Request_findById (Match_save (example_db ''completed'' ''proposed'') m') 11 =
      Some (example_stored_request ''completed'')" for m'
    by (simp only: Request_findById_Match_save example_request_found)
  have "Request_findById (snd (patch_match_status 3 example_admin
        \<lparr>inBody = Some ''rejected'', elsewhere = []\<rparr> None
        (example_db ''completed'' ''proposed''))) 11 =
      Some ((example_stored_request ''completed'')\<lparr>rq_status := ''searching''\<rparr>)"
    by (simp add: patch_match_status_def e m field_facts
        updateMatchStatus_permitted[OF example_match_found example_admin_permission]
        Request_findById_update[OF rf])
  moreover have "(example_stored_request ''completed'')\<lparr>rq_status := ''searching''\<rparr> =
      example_stored_request ''searching''"
    by (simp add: example_stored_request_def)
  moreover have "request_terminal ''completed''" by (simp add: request_terminal_def)
  moreover have "rq_status (example_stored_request ''completed'') = ''completed''"
    by (simp add: example_stored_request_def)
  ultimately show ?thesis using example_request_found by simp
qed

text \<open>The theorem of C6 at the example store, with the request in \<open>matched\<close>.\<close>

theorem rejected_match_resets_request_witness:
  "Request_findById (snd (patch_match_status 3 example_admin
        \<lparr>inBody = Some ''rejected'', elsewhere = []\<rparr> None
        (example_db ''matched'' ''proposed''))) (m_request (example_match ''proposed'')) =
           Some ((example_stored_request ''matched'')\<lparr>rq_status := ''searching''\<rparr>)"
proof -
  have "Request_findById (example_db ''matched'' ''proposed'') (m_request (example_match ''proposed''))
      = Some (example_stored_request ''matched'')"
    using example_request_found by (simp add: example_match_def)
  then show ?thesis
    by (rule rejected_match_resets_request[OF example_match_found example_admin_permission])
      simp_all
qed

subsection \<open>Reporting an outcome\<close>

text \<open>
  C7. Reporting a successful outcome for the example match writes the status
  \<open>completed\<close> to the match and \<open>fulfilled\<close> to the request. Neither is a status of
  the route validators: these have \<open>transplanted\<close> for a match and \<open>completed\<close> for
  a request.
\<close>

theorem reportOutcome_successful_statuses:
  "map m_status (matches (snd (reportOutcome [] 3 example_admin True None 1000
       (example_db ''in_progress'' ''delivered'')))) = [''completed'']
   \<and> map rq_status (requests (snd (reportOutcome [] 3 example_admin True None 1000
       (example_db ''in_progress'' ''delivered'')))) = [''fulfilled'']
   \<and> ''completed'' \<notin> set matchStatusValues \<and> ''transplanted'' \<in> set matchStatusValues
   \<and> ''fulfilled'' \<notin> set requestStatusValues \<and> ''completed'' \<in> set requestStatusValues"
proof -
  have "snd (reportOutcome [] 3 example_admin True None 1000 (example_db ''in_progress'' ''delivered'')) =
    \<lparr>users = [], hospitals = [example_hospital], donors = [\<lparr>d_id = 5, d_user = 50\<rparr>],
     requests = [example_stored_request ''fulfilled''],
     matches = [(example_match ''completed'')
       \<lparr>m_statusHistory := [\<lparr>se_status = ''completed'', se_updatedBy = 90, se_notes = []\<rparr>],
        m_outcome := Some \<lparr>successful = True, completedAt = 1000, reportedBy = 90, o_notes = []\<rparr>\<rparr>]\<rparr>"
    by (simp add: reportOutcome_def example_match_found example_admin_role Let_def notesOrEmpty_def)
      (simp add: example_db_def example_match_def example_stored_request_def Match_save_def
        Request_save_def Request_findById_def)
  then show ?thesis
    by (simp add: matchStatusValues_def requestStatusValues_def example_match_def
        example_stored_request_def)
qed

text \<open>An unsuccessful outcome writes \<open>failed\<close> and \<open>searching\<close>.\<close>

lemma reportOutcome_failed_statuses:
  "map m_status (matches (snd (reportOutcome [] 3 example_admin False None 1000
       (example_db ''in_progress'' ''delivered'')))) = [''failed'']
   \<and> map rq_status (requests (snd (reportOutcome [] 3 example_admin False None 1000
       (example_db ''in_progress'' ''delivered'')))) = [''searching'']"
proof -
  have "snd (reportOutcome [] 3 example_admin False None 1000 (example_db ''in_progress'' ''delivered'')) =
    \<lparr>users = [], hospitals = [example_hospital], donors = [\<lparr>d_id = 5, d_user = 50\<rparr>],
     requests = [example_stored_request ''searching''],
     matches = [(example_match ''failed'')
       \<lparr>m_statusHistory := [\<lparr>se_status = ''failed'', se_updatedBy = 90, se_notes = []\<rparr>],
        m_outcome := Some \<lparr>successful = False, completedAt = 1000, reportedBy = 90, o_notes = []\<rparr>\<rparr>]\<rparr>"
    by (simp add: reportOutcome_def example_match_found example_admin_role Let_def notesOrEmpty_def)
      (simp add: example_db_def example_match_def example_stored_request_def Match_save_def
        Request_save_def Request_findById_def)
  then show ?thesis
    by (simp add: example_match_def example_stored_request_def)
qed

subsection \<open>Confirming a match\<close>

lemma Match_findOne_Some_iff:
  "(\<exists>m. Match_findOne d r dn = Some m) = (\<exists>m \<in> set (matches d). m_request m = r \<and> m_donor m = dn)"
proof -
  have "(Match_findOne d r dn = None) = (\<not> (\<exists>m \<in> set (matches d). m_request m = r \<and> m_donor m = dn))"
    by (auto simp add: Match_findOne_def find_None_iff)
  then show ?thesis by auto
qed

lemma Donor_findById_id: "Donor_findById d i = Some dn \<Longrightarrow> d_id dn = i"
  unfolding Donor_findById_def by (rule find_key)

text \<open>
  C8, as the code has it. For a request and a donor that exist and a caller who passes
  the permission check, confirming fails with the duplicate answer exactly when a match
  of any status, terminal or not, exists for the pair, and then the store is unchanged;
  otherwise a match in status \<open>proposed\<close> is created: it is the answer, it is appended
  to the matches of the store, and the request is stored in status \<open>matched\<close> with the
  new match's id added to its matches.
\<close>

theorem confirmMatch_duplicate_any_status:
  assumes "Request_findById d rqId = Some request"
    and "Donor_findById d dnId = Some dn"
    and "au_role u = ''hospital'' \<longrightarrow> hospitalOwnsRequest d u request"
  shows "((\<exists>m \<in> set (matches d). m_request m = rqId \<and> m_donor m = dnId) \<longrightarrow>
           confirmMatch rqId dnId u newId d =
             (Msg 400 ''Match already exists for this donor and request'', d))
       \<and> (\<not> (\<exists>m \<in> set (matches d). m_request m = rqId \<and> m_donor m = dnId) \<longrightarrow>
           confirmMatch rqId dnId u newId d =
             (Json 201 \<lparr>m_id = newId, m_request = rqId, m_donor = dnId,
                       m_status = ''proposed'', proposedBy = au_id u,
                       matchType = requestType request,
                       m_urgencyLevel = rq_urgencyLevel request,
                       m_statusHistory = [], m_outcome = None\<rparr>, Request_save (Match_insert d \<lparr>m_id = newId, m_request = rqId, m_donor = dnId,
                       m_status = ''proposed'', proposedBy = au_id u,
                       matchType = requestType request,
                       m_urgencyLevel = rq_urgencyLevel request,
                       m_statusHistory = [], m_outcome = None\<rparr>) (request\<lparr>rq_status := ''matched'', rq_matches := rq_matches request @ [newId]\<rparr>))
           \<and> matches (snd (confirmMatch rqId dnId u newId d)) = matches d @ [\<lparr>m_id = newId, m_request = rqId, m_donor = dnId,
                       m_status = ''proposed'', proposedBy = au_id u,
                       matchType = requestType request,
                       m_urgencyLevel = rq_urgencyLevel request,
                       m_statusHistory = [], m_outcome = None\<rparr>]
           \<and> Request_findById (snd (confirmMatch rqId dnId u newId d)) rqId = Some (request\<lparr>rq_status := ''matched'', rq_matches := rq_matches request @ [newId]\<rparr>))"
proof -
  let ?m = "\<lparr>m_id = newId, m_request = rqId, m_donor = dnId,
                       m_status = ''proposed'', proposedBy = au_id u,
                       matchType = requestType request,
                       m_urgencyLevel = rq_urgencyLevel request,
                       m_statusHistory = [], m_outcome = None\<rparr>"
  let ?r = "request\<lparr>rq_status := ''matched'', rq_matches := rq_matches request @ [newId]\<rparr>"
  have ids: "rq_id request = rqId" "d_id dn = dnId"
    using assms by (simp_all add: Request_findById_id Donor_findById_id)
  show ?thesis
  proof (cases "Match_findOne d rqId dnId")
    case None
    then have no: "\<not> (\<exists>m \<in> set (matches d). m_request m = rqId \<and> m_donor m = dnId)"
      using Match_findOne_Some_iff[of d rqId dnId] by simp
    have res: "confirmMatch rqId dnId u newId d = (Json 201 ?m, Request_save (Match_insert d ?m) ?r)"
      using assms None ids by (simp add: confirmMatch_def Let_def)
    have ms: "matches (Request_save (Match_insert d ?m) ?r) = matches d @ [?m]"
      by (simp add: Request_save_def Match_insert_def)
    have "Request_findById (Match_insert d ?m) rqId = Some request"
      using assms(1) by (simp add: Request_findById_def Match_insert_def)
    then have "Request_findById (Request_save (Match_insert d ?m) ?r) rqId = Some ?r"
      by (rule Request_findById_save) (simp add: ids)
    with res ms no show ?thesis by simp
  next
    case (Some existing)
    then have "\<exists>m \<in> set (matches d). m_request m = rqId \<and> m_donor m = dnId"
      using Match_findOne_Some_iff[of d rqId dnId] by simp
    then show ?thesis
      using assms Some ids by (simp add: confirmMatch_def)
  qed
qed

lemma example_donor_found:
  "Donor_findById (example_db rs ms) 5 = Some \<lparr>d_id = 5, d_user = 50\<rparr>"
  by (simp add: Donor_findById_def example_db_def)

text \<open>
  C8 fails as stated: the only match of the pair is rejected, which is terminal, and
  confirming the pair again is refused.
\<close>

theorem confirmMatch_terminal_counterexample:
  "match_terminal ''rejected''
   \<and> matches (example_db ''searching'' ''rejected'') = [example_match ''rejected'']
   \<and> m_request (example_match ''rejected'') = 11 \<and> m_donor (example_match ''rejected'') = 5
   \<and> m_status (example_match ''rejected'') = ''rejected''
   \<and> confirmMatch 11 5 example_admin 4 (example_db ''searching'' ''rejected'') =
       (Msg 400 ''Match already exists for this donor and request'', example_db ''searching'' ''rejected'')"
proof -
  have "Match_findOne (example_db ''searching'' ''rejected'') 11 5 = Some (example_match ''rejected'')"
    by (simp add: Match_findOne_def example_db_def example_match_def)
  then have "confirmMatch 11 5 example_admin 4 (example_db ''searching'' ''rejected'') =
       (Msg 400 ''Match already exists for this donor and request'', example_db ''searching'' ''rejected'')"
    by (simp add: confirmMatch_def example_request_found example_donor_found example_admin_role
        example_stored_request_def)
  then show ?thesis
    by (simp add: match_terminal_def example_db_def example_match_def)
qed

text \<open>The theorem of C8 at the example store, for the user of the request's hospital.\<close>

theorem confirmMatch_duplicate_any_status_witness:
  "Request_findById (example_db ''searching'' ''rejected'') 11 = Some (example_stored_request ''searching'')
   \<and> Donor_findById (example_db ''searching'' ''rejected'') 5 = Some \<lparr>d_id = 5, d_user = 50\<rparr>
   \<and> (au_role example_hospital_user = ''hospital'' \<and>
       hospitalOwnsRequest (example_db ''searching'' ''rejected'') example_hospital_user
         (example_stored_request ''searching''))
   \<and> confirmMatch 11 5 example_hospital_user 4 (example_db ''searching'' ''rejected'') =
       (Msg 400 ''Match already exists for this donor and request'', example_db ''searching'' ''rejected'')
   \<and> fst (confirmMatch 11 5 example_hospital_user 4 ((example_db ''searching'' ''rejected'')\<lparr>matches := []\<rparr>)) =
       Json 201 ((example_match ''proposed'')\<lparr>m_id := 4, proposedBy := 70\<rparr>)
   \<and> matches (snd (confirmMatch 11 5 example_hospital_user 4
         ((example_db ''searching'' ''rejected'')\<lparr>matches := []\<rparr>))) =
       [(example_match ''proposed'')\<lparr>m_id := 4, proposedBy := 70\<rparr>]
   \<and> Request_findById (snd (confirmMatch 11 5 example_hospital_user 4
         ((example_db ''searching'' ''rejected'')\<lparr>matches := []\<rparr>))) 11 =
       Some ((example_stored_request ''matched'')\<lparr>rq_matches := [3, 4]\<rparr>)"
proof -
  let ?d = "example_db ''searching'' ''rejected''"
  have role: "au_role example_hospital_user = ''hospital''" by (simp add: example_hospital_user_def)
  have ex: "\<exists>m \<in> set (matches ?d). m_request m = 11 \<and> m_donor m = 5"
    by (simp add: example_db_def example_match_def)
  have nex: "\<not> (\<exists>m \<in> set (matches (?d\<lparr>matches := []\<rparr>)). m_request m = 11 \<and> m_donor m = 5)"
    by simp
  have r': "Request_findById (?d\<lparr>matches := []\<rparr>) 11 = Some (example_stored_request ''searching'')"
    using example_request_found[of "''searching''" "''rejected''"] by (simp add: Request_findById_def)
  have d': "Donor_findById (?d\<lparr>matches := []\<rparr>) 5 = Some \<lparr>d_id = 5, d_user = 50\<rparr>"
    using example_donor_found[of "''searching''" "''rejected''"] by (simp add: Donor_findById_def)
  have o': "au_role example_hospital_user = ''hospital'' \<longrightarrow>
      hospitalOwnsRequest (?d\<lparr>matches := []\<rparr>) example_hospital_user (example_stored_request ''searching'')"
    using example_hospital_owns[of "''searching''" "''rejected''" "''searching''"]
    by (simp add: hospitalOwnsRequest_def Hospital_findOne_def)
  have o: "au_role example_hospital_user = ''hospital'' \<longrightarrow>
      hospitalOwnsRequest ?d example_hospital_user (example_stored_request ''searching'')"
    using example_hospital_owns by simp
  have dup: "confirmMatch 11 5 example_hospital_user 4 ?d =
       (Msg 400 ''Match already exists for this donor and request'', ?d)"
    using confirmMatch_duplicate_any_status[OF example_request_found example_donor_found o,
        THEN conjunct1, rule_format, OF ex] .
  note created = confirmMatch_duplicate_any_status[OF r' d' o', THEN conjunct2, rule_format,
      OF nex, of 4]
  have new: "fst (confirmMatch 11 5 example_hospital_user 4 (?d\<lparr>matches := []\<rparr>)) =
       Json 201 ((example_match ''proposed'')\<lparr>m_id := 4, proposedBy := 70\<rparr>)"
    using created[THEN conjunct1]
    by (simp add: example_match_def example_stored_request_def example_hospital_user_def)
  have stored: "matches (snd (confirmMatch 11 5 example_hospital_user 4 (?d\<lparr>matches := []\<rparr>))) =
       [(example_match ''proposed'')\<lparr>m_id := 4, proposedBy := 70\<rparr>]"
    using created[THEN conjunct2, THEN conjunct1]
    by (simp add: example_match_def example_stored_request_def example_hospital_user_def)
  have req: "Request_findById (snd (confirmMatch 11 5 example_hospital_user 4 (?d\<lparr>matches := []\<rparr>))) 11 =
       Some ((example_stored_request ''matched'')\<lparr>rq_matches := [3, 4]\<rparr>)"
    using created[THEN conjunct2, THEN conjunct2]
    by (simp add: example_stored_request_def)
  show ?thesis
    using example_request_found example_donor_found role example_hospital_owns dup new stored req
    by (intro conjI)
qed

subsection \<open>Finding candidates\<close>

lemma those_map_Some:
  "those (map f xs) = Some ys \<Longrightarrow> map Some ys = map f xs"
  by (induction xs arbitrary: ys) (auto split: option.splits)


lemma toCandidate_donorId: "toCandidate request x = Some c \<Longrightarrow> donorId c = u_id x"
  by (auto simp: toCandidate_def split: option.splits)

lemma answer_ids:
  assumes "map Some answer = map (toCandidate request) found"
  shows "map donorId answer = map u_id found"
  using assms
proof (induction found arbitrary: answer)
  case Nil
  then show ?case by simp
next
  case (Cons x xs)
  then obtain c cs where a: "answer = c # cs" by (cases answer) auto
  with Cons.prems have "toCandidate request x = Some c" "map Some cs = map (toCandidate request) xs"
    by simp_all
  with Cons.IH a show ?case by (simp add: toCandidate_donorId)
qed

lemma findPotentialMatches_answer:
  assumes "findPotentialMatches errors rid u now d = Json 200 answer"
    and "Request_findById d rid = Some request"
  shows "map Some answer = map (toCandidate request) (findDonors d request now)"
  using assms
  by (auto simp: findPotentialMatches_def Let_def those_map_Some split: if_splits option.splits)




lemma not_found_not_returned:
  assumes "findPotentialMatches errors rid u now d = Json 200 answer"
    and "Request_findById d rid = Some request"
    and "x \<in> set (users d)" "distinct (map u_id (users d))"
    and "\<not> (u_role x = ''donor'' \<and> u_status x = ''active'' \<and> matchCriteria request now x)"
  shows "u_id x \<notin> set (map donorId answer)"
proof
  assume "u_id x \<in> set (map donorId answer)"
  then have "u_id x \<in> set (map u_id (findDonors d request now))"
    using answer_ids[OF findPotentialMatches_answer[OF assms(1,2)]] by simp
  then obtain y where y: "y \<in> set (users d)" "u_id y = u_id x"
    "u_role y = ''donor'' \<and> u_status y = ''active'' \<and> matchCriteria request now y"
    by (auto simp: findDonors_def)
  have "inj_on u_id (set (users d))" using assms(4) by (simp add: distinct_map)
  with y(1,2) assms(3) have "y = x" by (auto dest: inj_onD)
  with y(3) assms(5) show False by simp
qed

lemma returned_is_found:
  assumes "findPotentialMatches errors rid u now d = Json 200 answer"
    and "Request_findById d rid = Some request"
    and "c \<in> set answer"
  shows "\<exists>x \<in> set (users d). toCandidate request x = Some c
           \<and> u_role x = ''donor'' \<and> u_status x = ''active'' \<and> matchCriteria request now x"
proof -
  have "Some c \<in> set (map Some answer)" using assms(3) by simp
  then have "Some c \<in> set (map (toCandidate request) (findDonors d request now))"
    using findPotentialMatches_answer[OF assms(1,2)] by simp
  then show ?thesis by (auto simp: findDonors_def)
qed

lemma example_population_request:
  "Request_findById example_population 11 = Some (example_stored_request ''searching'')"
  by (simp add: example_population_def Request_findById_def example_db_def example_stored_request_def)

lemma example_scores:
  "calculateMatchScore (example_stored_request st)
     \<lparr>dp_bloodType = ''O-'', isAvailable = a, availableForBloodDonation = b,
      lastBloodDonationDate = l, organDonor = od, organsForDonation = ofd,
      dp_location = loc, availability = ''flexible''\<rparr> = 60"
  "calculateMatchScore (example_stored_request st)
     \<lparr>dp_bloodType = ''A+'', isAvailable = a, availableForBloodDonation = b,
      lastBloodDonationDate = l, organDonor = od, organsForDonation = ofd,
      dp_location = loc, availability = ''immediate''\<rparr> = 70"
  by (simp_all add: calculateMatchScore_def compatibilityPoints_def distancePoints_def
      availabilityPoints_def example_stored_request_def getCompatibleBloodTypes_simps truthy_def)

lemma example_found:
  "findDonors example_population (example_stored_request ''searching'') 10000000000 =
    [example_donor_user 21 ''O-'' ''flexible'' False (Some 0),
     example_donor_user 22 ''A+'' ''immediate'' True (Some 0)]"
  by (simp add: findDonors_def example_population_def example_donor_user_def matchCriteria_def
      example_stored_request_def getCompatibleBloodTypes_simps)

lemma example_answer:
  "au_role u \<noteq> ''hospital'' \<or> u = example_hospital_user \<Longrightarrow>
   findPotentialMatches [] 11 u 10000000000 example_population =
    Json 200
      [\<lparr>donorId = 21, c_name = ''donor'', c_bloodType = ''O-'', c_location = None, matchScore = 60\<rparr>,
       \<lparr>donorId = 22, c_name = ''donor'', c_bloodType = ''A+'', c_location = None, matchScore = 70\<rparr>]"
proof -
  assume u: "au_role u \<noteq> ''hospital'' \<or> u = example_hospital_user"
  have "hospitalOwnsRequest example_population example_hospital_user (example_stored_request ''searching'')"
    using example_hospital_owns[of "''searching''" "''proposed''" "''searching''"]
    by (simp add: example_population_def hospitalOwnsRequest_def Hospital_findOne_def)
  with u have "\<not> (au_role u = ''hospital'' \<and>
      \<not> hospitalOwnsRequest example_population u (example_stored_request ''searching''))"
    by auto
  then show ?thesis
    by (simp add: findPotentialMatches_def example_population_request example_found Let_def)
      (simp add: toCandidate_def example_donor_user_def example_scores)
qed



text \<open>
  C9, as the code has it. The search gates a blood request on
  \<open>availableForBloodDonation\<close> and an organ request on \<open>organDonor\<close>: a donor whose
  profile has the flag of the request's kind false is never among the candidates.
\<close>

theorem candidates_pass_donation_gate:
  assumes "findPotentialMatches errors rid u now d = Json 200 answer"
    and "Request_findById d rid = Some request"
    and "x \<in> set (users d)" and "distinct (map u_id (users d))"
    and "u_donorProfile x = Some p"
    and "(requestType request = ''blood'' \<and> \<not> availableForBloodDonation p)
         \<or> (requestType request = ''organ'' \<and> \<not> organDonor p)"
  shows "u_id x \<notin> set (map donorId answer)"
proof -
  have "\<not> matchCriteria request now x"
    using assms(5,6) by (auto simp: matchCriteria_def Let_def)
  then show ?thesis
    using not_found_not_returned[OF assms(1-4)] by simp
qed

text \<open>
  The \<open>isAvailable\<close> flag is not consulted: setting it in any way on the profiles of
  the store leaves the answer of the search the same.
\<close>

lemma findPotentialMatches_ignores_isAvailable:
  "findPotentialMatches errors rid u now
     (d\<lparr>users := map (\<lambda>x. x\<lparr>u_donorProfile :=
         map_option (\<lambda>p. p\<lparr>isAvailable := f x\<rparr>) (u_donorProfile x)\<rparr>) (users d)\<rparr>)
   = findPotentialMatches errors rid u now d"
proof -
  let ?upd = "\<lambda>x. x\<lparr>u_donorProfile := map_option (\<lambda>p. p\<lparr>isAvailable := f x\<rparr>) (u_donorProfile x)\<rparr>"
  let ?d' = "d\<lparr>users := map ?upd (users d)\<rparr>"
  have crit: "matchCriteria request now (?upd x) = matchCriteria request now x" for request x
    by (cases "u_donorProfile x") (simp_all add: matchCriteria_def Let_def)
  have cand: "toCandidate request (?upd x) = toCandidate request x" for request x
    by (cases "u_donorProfile x")
      (simp_all add: toCandidate_def calculateMatchScore_def compatibilityPoints_def
        distancePoints_def availabilityPoints_def cong: option.case_cong)
  have "findDonors ?d' request now = map ?upd (findDonors d request now)" for request
    by (simp add: findDonors_def filter_map o_def crit)
  then have fd: "map (toCandidate request) (findDonors ?d' request now) =
      map (toCandidate request) (findDonors d request now)" for request
    by (simp add: o_def cand)
  have rq: "Request_findById ?d' rid = Request_findById d rid"
    by (simp add: Request_findById_def)
  have ho: "hospitalOwnsRequest ?d' u request = hospitalOwnsRequest d u request" for request
    by (simp add: hospitalOwnsRequest_def Hospital_findOne_def)
  show ?thesis
    unfolding findPotentialMatches_def Let_def by (simp only: fd rq ho)
qed

lemma example_population_distinct: "distinct (map u_id (users example_population))"
  by (simp add: example_population_def example_donor_user_def)

text \<open>
  C9 fails as stated: donor 21 of the example population has \<open>isAvailable = false\<close>
  and is among the candidates.
\<close>

theorem unavailable_donor_returned_counterexample:
  "example_donor_user 21 ''O-'' ''flexible'' False (Some 0) \<in> set (users example_population)
   \<and> map_option isAvailable (u_donorProfile (example_donor_user 21 ''O-'' ''flexible'' False (Some 0)))
       = Some False
   \<and> u_id (example_donor_user 21 ''O-'' ''flexible'' False (Some 0)) = 21
   \<and> findPotentialMatches [] 11 example_admin 10000000000 example_population =
    Json 200
      [\<lparr>donorId = 21, c_name = ''donor'', c_bloodType = ''O-'', c_location = None, matchScore = 60\<rparr>,
       \<lparr>donorId = 22, c_name = ''donor'', c_bloodType = ''A+'', c_location = None, matchScore = 70\<rparr>]"
  by (simp add: example_answer example_admin_role)
    (simp add: example_population_def example_donor_user_def)

text \<open>
  The theorem of C9 at the example population with donor 24 added, whose
  \<open>availableForBloodDonation\<close> is false.
\<close>

theorem candidates_pass_donation_gate_witness:
  "24 \<notin> set (map donorId
      [\<lparr>donorId = 21, c_name = ''donor'', c_bloodType = ''O-'', c_location = None, matchScore = 60\<rparr>,
       \<lparr>donorId = 22, c_name = ''donor'', c_bloodType = ''A+'', c_location = None, matchScore = 70\<rparr>])
   \<and> findPotentialMatches [] 11 example_admin 10000000000 example_gated_population =
    Json 200
      [\<lparr>donorId = 21, c_name = ''donor'', c_bloodType = ''O-'', c_location = None, matchScore = 60\<rparr>,
       \<lparr>donorId = 22, c_name = ''donor'', c_bloodType = ''A+'', c_location = None, matchScore = 70\<rparr>]"
proof -
  let ?p = "\<lparr>dp_bloodType = ''A+'', isAvailable = True, availableForBloodDonation = False,
             lastBloodDonationDate = Some 0, organDonor = False, organsForDonation = [],
             dp_location = None, availability = ''immediate''\<rparr>"
  let ?x = "(example_donor_user 24 ''A+'' ''immediate'' True (Some 0))\<lparr>u_donorProfile := Some ?p\<rparr>"
  let ?a = "[\<lparr>donorId = 21, c_name = ''donor'', c_bloodType = ''O-'', c_location = None, matchScore = 60\<rparr>,
       \<lparr>donorId = 22, c_name = ''donor'', c_bloodType = ''A+'', c_location = None, matchScore = 70\<rparr>]"
  have f: "findDonors example_gated_population (example_stored_request ''searching'') 10000000000 =
      findDonors example_population (example_stored_request ''searching'') 10000000000"
    by (simp add: findDonors_def example_gated_population_def matchCriteria_def
        example_stored_request_def example_donor_user_def)
  have r: "Request_findById example_gated_population 11 = Some (example_stored_request ''searching'')"
    using example_population_request
    by (simp add: Request_findById_def example_gated_population_def)
  have resp: "findPotentialMatches [] 11 example_admin 10000000000 example_gated_population = Json 200 ?a"
    using example_answer[of example_admin]
    by (simp add: findPotentialMatches_def r f example_population_request example_admin_role Let_def)
  have x: "?x \<in> set (users example_gated_population)"
    by (simp add: example_gated_population_def)
  have dist: "distinct (map u_id (users example_gated_population))"
    by (simp add: example_gated_population_def example_population_def example_donor_user_def)
  have prof: "u_donorProfile ?x = Some ?p" by simp
  have gate: "(requestType (example_stored_request ''searching'') = ''blood'' \<and> \<not> availableForBloodDonation ?p)
         \<or> (requestType (example_stored_request ''searching'') = ''organ'' \<and> \<not> organDonor ?p)"
    by (simp add: example_stored_request_def)
  have "u_id ?x \<notin> set (map donorId ?a)"
    by (rule candidates_pass_donation_gate[OF resp r x dist prof gate])
  then have "24 \<notin> set (map donorId ?a)" by (simp add: example_donor_user_def)
  with resp show ?thesis by (intro conjI)
qed

text \<open>
  C10. For a blood request, a donor whose profile has no last blood donation date is
  not among the candidates (ids being unique in the store), and every candidate comes
  from a user whose last blood donation date exists and lies more than 56 days
  (4838400000 ms) before now.
\<close>

theorem never_donated_excluded:
  assumes "findPotentialMatches errors rid u now d = Json 200 answer"
    and "Request_findById d rid = Some request"
    and "requestType request = ''blood''"
  shows "(\<forall>x \<in> set (users d). \<forall>p. distinct (map u_id (users d)) \<and> u_donorProfile x = Some p
            \<and> lastBloodDonationDate p = None \<longrightarrow> u_id x \<notin> set (map donorId answer))
       \<and> (\<forall>c \<in> set answer. \<exists>x \<in> set (users d). \<exists>p date. donorId c = u_id x
            \<and> u_donorProfile x = Some p \<and> lastBloodDonationDate p = Some date
            \<and> date < now - 4838400000)"
proof (intro conjI ballI allI impI)
  fix x p
  assume x: "x \<in> set (users d)"
    and h: "distinct (map u_id (users d)) \<and> u_donorProfile x = Some p \<and> lastBloodDonationDate p = None"
  then have "\<not> matchCriteria request now x"
    using assms(3) by (simp add: matchCriteria_def Let_def)
  then show "u_id x \<notin> set (map donorId answer)"
    using not_found_not_returned[OF assms(1,2) x] h by simp
next
  fix c assume "c \<in> set answer"
  then obtain x where x: "x \<in> set (users d)" "toCandidate request x = Some c"
    "matchCriteria request now x"
    using returned_is_found[OF assms(1,2)] by blast
  from x(2) obtain p where p: "u_donorProfile x = Some p"
    by (cases "u_donorProfile x") (simp_all add: toCandidate_def)
  with x(3) assms(3) obtain date where "lastBloodDonationDate p = Some date" "date < now - 4838400000"
    by (cases "lastBloodDonationDate p") (simp_all add: matchCriteria_def Let_def)
  with x p show "\<exists>x \<in> set (users d). \<exists>p date. donorId c = u_id x
            \<and> u_donorProfile x = Some p \<and> lastBloodDonationDate p = Some date
            \<and> date < now - 4838400000"
    using toCandidate_donorId[OF x(2)] by blast
qed

text \<open>The theorem of C10 at the example population, whose donor 23 never donated.\<close>

theorem never_donated_excluded_witness:
  "findPotentialMatches [] 11 example_admin 10000000000 example_population =
    Json 200
      [\<lparr>donorId = 21, c_name = ''donor'', c_bloodType = ''O-'', c_location = None, matchScore = 60\<rparr>,
       \<lparr>donorId = 22, c_name = ''donor'', c_bloodType = ''A+'', c_location = None, matchScore = 70\<rparr>]
   \<and> example_donor_user 23 ''A+'' ''immediate'' True None \<in> set (users example_population)
   \<and> map_option lastBloodDonationDate (u_donorProfile (example_donor_user 23 ''A+'' ''immediate'' True None))
        = Some None
   \<and> 23 \<notin> set (map donorId
      [\<lparr>donorId = 21, c_name = ''donor'', c_bloodType = ''O-'', c_location = None, matchScore = 60\<rparr>,
       \<lparr>donorId = 22, c_name = ''donor'', c_bloodType = ''A+'', c_location = None, matchScore = 70\<rparr>])"
proof -
  let ?a = "[\<lparr>donorId = 21, c_name = ''donor'', c_bloodType = ''O-'', c_location = None, matchScore = 60\<rparr>,
       \<lparr>donorId = 22, c_name = ''donor'', c_bloodType = ''A+'', c_location = None, matchScore = 70\<rparr>]"
  let ?x = "example_donor_user 23 ''A+'' ''immediate'' True None"
  have resp: "findPotentialMatches [] 11 example_admin 10000000000 example_population = Json 200 ?a"
    by (simp add: example_answer example_admin_role)
  have ty: "requestType (example_stored_request ''searching'') = ''blood''"
    by (simp add: example_stored_request_def)
  have x: "?x \<in> set (users example_population)" by (simp add: example_population_def)
  obtain p where p: "u_donorProfile ?x = Some p" "lastBloodDonationDate p = None"
    by (simp add: example_donor_user_def)
  have "u_id ?x \<notin> set (map donorId ?a)"
    using never_donated_excluded[OF resp example_population_request ty, THEN conjunct1,
        rule_format, OF x conjI[OF example_population_distinct conjI[OF p]]] .
  then have "23 \<notin> set (map donorId ?a)" by (simp add: example_donor_user_def)
  moreover have "map_option lastBloodDonationDate (u_donorProfile ?x) = Some None"
    by (simp add: example_donor_user_def)
  ultimately show ?thesis using resp x by (intro conjI)
qed

subsection \<open>The scores of the candidates\<close>

lemma candidate_score_le_70:
  assumes "findPotentialMatches errors rid u now d = Json 200 answer"
    and "Request_findById d rid = Some request"
    and "rq_hospital request = HospitalId h"
    and "c \<in> set answer"
  shows "matchScore c \<le> 70"
proof -
  obtain x where "toCandidate request x = Some c"
    using returned_is_found[OF assms(1,2,4)] by blast
  then obtain p where "matchScore c = calculateMatchScore request p"
    by (cases "u_donorProfile x") (auto simp: toCandidate_def)
  then show ?thesis using score_unpopulated(2)[OF assms(3)] by simp
qed

lemma example_nearby_request:
  "Request_findById example_nearby_population 11 = Some (example_stored_request ''searching'')"
  by (simp add: example_nearby_population_def Request_findById_def example_db_def
      example_stored_request_def)

text \<open>
  C4. The search scores a compatible donor of immediate availability about 1.1 km from
  the request's hospital at 70, not 100: the handler passes the request with the
  hospital's id in place of its document, so the distance block of the scoring function
  is skipped. On the same request with the hospital's document in place, the scoring
  function gives this donor 100.
\<close>

theorem findPotentialMatches_scores_without_distance:
  "hospitals example_nearby_population = [example_hospital]
   \<and> h_id example_hospital = hospital_id (rq_hospital (example_stored_request ''searching''))
   \<and> h_location example_hospital = Some (0, 0)
   \<and> dp_location example_nearby_profile = Some (0, 1 / 100)
   \<and> calculateDistance (0, 0) (0, 1 / 100) < 10
   \<and> dp_bloodType example_nearby_profile
       \<in> set (getCompatibleBloodTypes (rq_bloodType (example_stored_request ''searching'')))
   \<and> availability example_nearby_profile = ''immediate''
   \<and> findPotentialMatches [] 11 example_admin 10000000000 example_nearby_population =
       Json 200 [\<lparr>donorId = 25, c_name = ''donor'', c_bloodType = ''O-'',
                  c_location = Some (0, 1 / 100), matchScore = 70\<rparr>]
   \<and> calculateMatchScore
        ((example_stored_request ''searching'')\<lparr>rq_hospital := HospitalDoc example_hospital\<rparr>)
        example_nearby_profile = 100"
proof -
  let ?r = "example_stored_request ''searching''"
  have s70: "calculateMatchScore ?r example_nearby_profile = 70"
    by (simp add: calculateMatchScore_def compatibilityPoints_def distancePoints_def
        availabilityPoints_def example_stored_request_def example_nearby_profile_def
        getCompatibleBloodTypes_simps truthy_def)
  have found: "findDonors example_nearby_population ?r 10000000000 =
      [\<lparr>u_id = 25, u_name = ''donor'', u_role = ''donor'', u_status = ''active'',
        u_donorProfile = Some example_nearby_profile\<rparr>]"
    by (simp add: findDonors_def example_nearby_population_def matchCriteria_def
        example_stored_request_def example_nearby_profile_def getCompatibleBloodTypes_simps)
  have answer: "findPotentialMatches [] 11 example_admin 10000000000 example_nearby_population =
       Json 200 [\<lparr>donorId = 25, c_name = ''donor'', c_bloodType = ''O-'',
                  c_location = Some (0, 1 / 100), matchScore = 70\<rparr>]"
    by (simp add: findPotentialMatches_def example_nearby_request example_admin_role found
        toCandidate_def s70)
      (simp add: example_nearby_profile_def)
  have s100: "calculateMatchScore (?r\<lparr>rq_hospital := HospitalDoc example_hospital\<rparr>)
        example_nearby_profile = 100"
    using example_nearby_distance(3)
    by (simp add: calculateMatchScore_def compatibilityPoints_def distancePoints_def
        availabilityPoints_def example_stored_request_def example_nearby_profile_def
        example_hospital_def getCompatibleBloodTypes_simps truthy_def)
  have rest: "hospitals example_nearby_population = [example_hospital]"
    "h_id example_hospital = hospital_id (rq_hospital ?r)"
    "h_location example_hospital = Some (0, 0)"
    "dp_location example_nearby_profile = Some (0, 1 / 100)"
    "dp_bloodType example_nearby_profile \<in> set (getCompatibleBloodTypes (rq_bloodType ?r))"
    "availability example_nearby_profile = ''immediate''"
    by (simp_all add: example_nearby_population_def example_db_def example_hospital_def
        example_stored_request_def example_nearby_profile_def getCompatibleBloodTypes_simps)
  from rest example_nearby_distance(3) answer s100 show ?thesis by (intro conjI)
qed

end
